theory Spec2Isabelle
  imports Complex_Main "HOL-Library.Multiset"
begin

section \<open>StoryboardAI: a shallow embedding of the front-end handlers and the guide's Python\<close>

text \<open>
  Strings of the JavaScript front end and of the Python code are modelled as \<open>string\<close>;
  a \<open>char\<close> stands for one character with code below 256. The library predicates on
  characters (\<open>str.isspace\<close>, \<open>str.isdigit\<close>, the line boundaries of
  \<open>str.splitlines\<close>, the white space of \<open>String.prototype.trim\<close>) are written out for
  that range.
\<close>

subsection \<open>Substring search shared by Python's \<open>in\<close>, \<open>str.partition\<close> and JavaScript's \<open>includes\<close>, \<open>split\<close>\<close>

text \<open>\<open>startsWith s p\<close>: \<open>s.startsWith(p)\<close>, by structural recursion on the prefix.\<close>

fun startsWith :: "string \<Rightarrow> string \<Rightarrow> bool" where
  "startsWith s [] = True"
| "startsWith [] (p # ps) = False"
| "startsWith (c # s) (p # ps) = (c = p \<and> startsWith s ps)"

text \<open>
  \<open>find_first sep s\<close> cuts \<open>s\<close> at the leftmost occurrence of the non-empty separator:
  \<open>Some (before, after)\<close>, or \<open>None\<close> when \<open>sep\<close> does not occur.
\<close>

fun find_first :: "string \<Rightarrow> string \<Rightarrow> (string \<times> string) option" where
  "find_first sep [] = (if sep = [] then Some ([], []) else None)"
| "find_first sep (c # s) =
     (if startsWith (c # s) sep then Some ([], drop (length sep) (c # s))
      else (case find_first sep s of
              None \<Rightarrow> None
            | Some (b, a) \<Rightarrow> Some (c # b, a)))"

definition js_includes :: "string \<Rightarrow> string \<Rightarrow> bool" where
  "js_includes s sep = (find_first sep s \<noteq> None)"

subsection \<open>Actor selection toggle (StoryboardView.js, FeedbackModal)\<close>

text \<open>
  \<^verbatim>\<open>setSelectedActors(prev => prev.includes(actorName)
       ? prev.filter(name => name !== actorName) : [...prev, actorName])\<close>
  Both copies of \<open>handleActorSelection\<close> compute this function of the previous list.
\<close>

definition handleActorSelection :: "string \<Rightarrow> string list \<Rightarrow> string list" where
  "handleActorSelection actorName prev =
     (if actorName \<in> set prev then filter (\<lambda>name. name \<noteq> actorName) prev
      else prev @ [actorName])"

subsection \<open>Consultation stage progress (FilmSchoolConsultation.js)\<close>

definition stages :: "string list" where
  "stages = [''initial'', ''character_development'', ''plot_structure'', ''visual_style'']"

text \<open>\<open>Array.prototype.indexOf\<close>: the first index holding the value, \<open>-1\<close> when there is none.\<close>

fun indexOf :: "'a list \<Rightarrow> 'a \<Rightarrow> int" where
  "indexOf [] x = -1"
| "indexOf (y # ys) x =
     (if y = x then 0 else (let r = indexOf ys x in if r < 0 then -1 else r + 1))"

text \<open>
  \<open>Math.round\<close> rounds to the nearest integer, halves upwards. The quotients
  \<open>(i + 1) / 4\<close> and their products with 100 are exact in binary floating point, so the
  arithmetic is written over the reals.
\<close>

definition Math_round :: "real \<Rightarrow> int" where
  "Math_round x = \<lfloor>x + 1 / 2\<rfloor>"

text \<open>The component state touched by \<open>updateStageProgress\<close> is the number \<open>stageProgress\<close>.\<close>

definition updateStageProgress :: "string \<Rightarrow> int \<Rightarrow> int" where
  "updateStageProgress stage stageProgress =
     (let currentIndex = indexOf stages stage in
      if currentIndex \<ge> 0
      then Math_round ((of_int (currentIndex + 1) / of_nat (length stages)) * 100)
      else stageProgress)"

subsection \<open>Model factory (implementation guide, Phase 3)\<close>

datatype py_error = ValueError string | AttributeError | IndexError | KeyError | APIError

text \<open>
  The generator objects are represented by their class and constructor arguments; the
  constants \<open>OPENAI_API_KEY\<close> and \<open>MJ_BOT_TOKEN\<close> of the guide are parameters.
\<close>

datatype generator =
    StableDiffusionGenerator
  | DalleGenerator string
  | MidjourneyGenerator string

definition get_image_generator :: "string \<Rightarrow> string \<Rightarrow> string \<Rightarrow> py_error + generator" where
  "get_image_generator OPENAI_API_KEY MJ_BOT_TOKEN model_name =
     (if model_name = ''stable_diffusion'' then Inr StableDiffusionGenerator
      else if model_name = ''dalle'' then Inr (DalleGenerator OPENAI_API_KEY)
      else if model_name = ''midjourney'' then Inr (MidjourneyGenerator MJ_BOT_TOKEN)
      else Inl (ValueError ''Unsupported model''))"

subsection \<open>Image URL formatter (services/api.js, \<open>utils.formatImageUrl\<close>)\<close>

text \<open>
  \<open>String.prototype.split\<close> with a string separator: the pieces between successive
  non-overlapping occurrences, scanning from the left; the empty separator splits into
  single characters. \<open>acc\<close> holds the current piece in reverse.
\<close>

fun split_from :: "string \<Rightarrow> string \<Rightarrow> string \<Rightarrow> string list" where
  "split_from sep acc [] = [rev acc]"
| "split_from sep acc (c # s) =
     (if sep \<noteq> [] \<and> startsWith (c # s) sep
      then rev acc # split_from sep [] (drop (length sep) (c # s))
      else split_from sep (c # acc) s)"

definition js_split :: "string \<Rightarrow> string \<Rightarrow> string list" where
  "js_split s sep = (if sep = [] then map (\<lambda>c. [c]) s else split_from sep [] s)"

text \<open>
  An array element inside a template literal: reading past the end gives \<open>undefined\<close>,
  which the template prints as the word.
\<close>

definition template_elem :: "string list \<Rightarrow> nat \<Rightarrow> string" where
  "template_elem xs i = (if i < length xs then xs ! i else ''undefined'')"

text \<open>
  The argument of the formatter as its callers supply it: a string, \<open>null\<close> or
  \<open>undefined\<close>. The result is a string or \<open>null\<close> (\<open>None\<close>).
\<close>

datatype js_string_arg = Null | Undefined | Str string

text \<open>
  \<open>process.env.REACT_APP_API_URL || 'http://localhost:8000'\<close>: the environment variable is
  unset (\<open>None\<close>) or a string, and the empty string is falsy.
\<close>

definition baseUrl :: "string option \<Rightarrow> string" where
  "baseUrl env =
     (case env of
        None \<Rightarrow> ''http://localhost:8000''
      | Some u \<Rightarrow> if u = [] then ''http://localhost:8000'' else u)"

definition formatImageUrl :: "string option \<Rightarrow> js_string_arg \<Rightarrow> string option" where
  "formatImageUrl env imageUrl =
     (case imageUrl of
        Null \<Rightarrow> None
      | Undefined \<Rightarrow> None
      | Str u \<Rightarrow>
          if u = [] then None
          else if startsWith u ''http'' then Some u
          else if js_includes u ''actor_images/''
            then Some (baseUrl env @ ''/actor-images/''
                        @ template_elem (js_split u ''actor_images/'') 1)
          else if startsWith u ''/actor-images/'' \<or> startsWith u ''actor-images/''
            then Some (baseUrl env @ (if startsWith u ''/'' then [] else ''/'') @ u)
          else if js_includes u ''frame_images/''
            then Some (baseUrl env @ ''/frame-images/''
                        @ template_elem (js_split u ''frame_images/'') 1)
          else if startsWith u ''/images/'' \<or> startsWith u ''/frame-images/''
            then Some (baseUrl env @ u)
          else (let normalizedPath = (if startsWith u ''/'' then u else ''/'' @ u)
                in Some (baseUrl env @ normalizedPath)))"

subsection \<open>Outcome of a backend call\<close>

text \<open>
  An awaited axios call either resolves with the response data or rejects; a rejection
  may carry \<open>err.response.data.detail\<close>. The backend is a parameter of every handler.
\<close>

datatype 'a api_result = Ok 'a | Failed "string option"

text \<open>\<open>detail || fallback\<close>: a missing or empty detail gives the fallback message.\<close>

definition detail_or :: "string option \<Rightarrow> string \<Rightarrow> string" where
  "detail_or detail fallback =
     (case detail of None \<Rightarrow> fallback | Some d \<Rightarrow> if d = [] then fallback else d)"

subsection \<open>Actor creation (ActorList.js)\<close>

text \<open>White space removed by \<open>String.prototype.trim\<close>, for character codes below 256.\<close>

definition js_isspace :: "char \<Rightarrow> bool" where
  "js_isspace c = ((of_char c :: nat) \<in> {9, 10, 11, 12, 13, 32, 160})"

definition js_trim :: "string \<Rightarrow> string" where
  "js_trim s = rev (dropWhile js_isspace (rev (dropWhile js_isspace s)))"

text \<open>
  The create form. \<open>images\<close> is \<open>None\<close> when the field is missing; the uploaded files are
  represented by their names.
\<close>

record form_data =
  name :: string
  description :: string
  images :: "string list option"
  auto_generate_image :: bool

record actor =
  name_of_actor :: string
  actor_images :: "string list option"
  image_paths :: "string list option"

datatype actor_request = CreateActor form_data | GetActors

record actor_list_state =
  actors :: "actor list"
  loading :: bool
  error :: "string option"
  showCreateModal :: bool
  createFormData :: form_data
  createLoading :: bool
  createError :: "string option"
  requests :: "actor_request list"

text \<open>\<open>if (!actor.images) actor.images = actor.image_paths || []\<close>; an array is truthy.\<close>

definition processActor :: "actor \<Rightarrow> actor" where
  "processActor a =
     (case actor_images a of
        Some _ \<Rightarrow> a
      | None \<Rightarrow> a\<lparr>actor_images :=
                    Some (case image_paths a of None \<Rightarrow> [] | Some ps \<Rightarrow> ps)\<rparr>)"

definition fetchActors :: "actor list api_result \<Rightarrow> actor_list_state \<Rightarrow> actor_list_state" where
  "fetchActors getActors st =
     (let st1 = st\<lparr>loading := True, error := None, requests := requests st @ [GetActors]\<rparr>
      in case getActors of
           Ok data \<Rightarrow> st1\<lparr>actors := map processActor data, loading := False\<rparr>
         | Failed _ \<Rightarrow>
             st1\<lparr>error := Some ''Failed to load actors. Please try again later.'',
                 loading := False\<rparr>)"

definition handleCreateSubmit ::
  "(form_data \<Rightarrow> unit api_result) \<Rightarrow> actor list api_result
     \<Rightarrow> actor_list_state \<Rightarrow> actor_list_state" where
  "handleCreateSubmit createActor getActors st =
     (let fd = createFormData st in
      if js_trim (name fd) = []
      then st\<lparr>createError := Some ''Actor name is required''\<rparr>
      else if \<not> auto_generate_image fd \<and> (images fd = None \<or> images fd = Some [])
      then st\<lparr>createError := Some ''Please either upload images or select auto-generate''\<rparr>
      else
        (let st1 = st\<lparr>createLoading := True, createError := None,
                       requests := requests st @ [CreateActor fd]\<rparr>
         in case createActor fd of
              Ok _ \<Rightarrow>
                (let st2 = st1\<lparr>createFormData :=
                                  \<lparr>name = [], description = [], images = Some [],
                                   auto_generate_image = False\<rparr>,
                                showCreateModal := False\<rparr>;
                     st3 = fetchActors getActors st2
                 in st3\<lparr>createLoading := False\<rparr>)
            | Failed detail \<Rightarrow>
                st1\<lparr>createError := Some (detail_or detail ''Failed to create actor''),
                    createLoading := False\<rparr>))"

subsection \<open>Submitting consultation answers (FilmSchoolConsultation.js)\<close>

text \<open>
  \<open>answers\<close> is an object keyed by question index. It is an association list here, the
  first binding of a key being its value; \<open>Object.keys(answers)\<close> lists each key once.
\<close>

definition Object_keys :: "(nat \<times> string) list \<Rightarrow> nat list" where
  "Object_keys obj = remdups (map fst obj)"

text \<open>\<open>answers[index] || ""\<close>\<close>

definition answer_or_empty :: "(nat \<times> string) list \<Rightarrow> nat \<Rightarrow> string" where
  "answer_or_empty obj index = (case map_of obj index of None \<Rightarrow> [] | Some a \<Rightarrow> a)"

text \<open>\<open>setAnswers(prev => ({...prev, [questionIndex]: value}))\<close>\<close>

fun set_key :: "'k \<Rightarrow> 'v \<Rightarrow> ('k \<times> 'v) list \<Rightarrow> ('k \<times> 'v) list" where
  "set_key k v [] = [(k, v)]"
| "set_key k v ((k', v') # obj) =
     (if k' = k then (k, v) # obj else (k', v') # set_key k v obj)"

record question =
  question_text :: string
  explanation :: string

record submit_response =
  evaluation_data :: "string option"
  next_questions :: "question list option"
  next_stage :: "string option"

datatype consultation_request = SubmitAnswers "(nat \<times> string) list"

record consultation_state =
  questions :: "question list"
  answers :: "(nat \<times> string) list"
  evaluation :: "string option"
  currentStage :: string
  nextStage :: "string option"
  submitting :: bool
  consultation_error :: "string option"
  stageProgress :: int
  consultation_requests :: "consultation_request list"

definition handleAnswerChange :: "nat \<Rightarrow> string \<Rightarrow> consultation_state \<Rightarrow> consultation_state" where
  "handleAnswerChange questionIndex v st = st\<lparr>answers := set_key questionIndex v (answers st)\<rparr>"

text \<open>
  A string of the response tested in a condition is truthy when it is present and not
  the empty string.
\<close>

definition truthy :: "string option \<Rightarrow> string option" where
  "truthy x = (case x of None \<Rightarrow> None | Some v \<Rightarrow> if v = [] then None else Some v)"

definition apply_response :: "submit_response \<Rightarrow> consultation_state \<Rightarrow> consultation_state" where
  "apply_response r st =
     (let st1 = (case truthy (evaluation_data r) of
                   Some e \<Rightarrow> st\<lparr>evaluation := Some e\<rparr>
                 | None \<Rightarrow> st)
      in case next_questions r of
           Some qs \<Rightarrow>
             (let st2 = st1\<lparr>questions := qs\<rparr>;
                  st3 = (case truthy (next_stage r) of
                           Some ns \<Rightarrow>
                             st2\<lparr>currentStage := ns,
                                 stageProgress := updateStageProgress ns (stageProgress st2)\<rparr>
                         | None \<Rightarrow> st2)
              in st3\<lparr>answers := [], nextStage := None\<rparr>)
         | None \<Rightarrow>
             (case truthy (next_stage r) of
                Some ns \<Rightarrow> st1\<lparr>nextStage := Some ns, questions := []\<rparr>
              | None \<Rightarrow> st1\<lparr>questions := [], nextStage := None\<rparr>))"

definition handleSubmitAnswers ::
  "((nat \<times> string) list \<Rightarrow> submit_response api_result)
     \<Rightarrow> consultation_state \<Rightarrow> consultation_state" where
  "handleSubmitAnswers submitAnswers st =
     (if length (Object_keys (answers st)) \<noteq> length (questions st)
      then st\<lparr>consultation_error := Some ''Please answer all questions before submitting''\<rparr>
      else
        (let formattedAnswers =
               map (\<lambda>index. (index, answer_or_empty (answers st) index))
                   [0 ..< length (questions st)];
             st1 = st\<lparr>submitting := True, consultation_error := None,
                      consultation_requests :=
                        consultation_requests st @ [SubmitAnswers formattedAnswers]\<rparr>
         in case submitAnswers formattedAnswers of
              Ok r \<Rightarrow> (apply_response r st1)\<lparr>submitting := False\<rparr>
            | Failed detail \<Rightarrow>
                st1\<lparr>consultation_error := Some (detail_or detail ''Failed to submit answers''),
                    submitting := False\<rparr>))"

subsection \<open>Numbers in template literals and f-strings\<close>

text \<open>
  The decimal numeral of an integer, as the f-string \<open>f"{n}"\<close> prints it, and as a
  template literal \<open>`${n}`\<close> prints an integer of absolute value below \<open>10^21\<close>.
\<close>

fun show_nat :: "nat \<Rightarrow> string" where
  "show_nat n =
     (if n < 10 then [''0123456789'' ! n]
      else show_nat (n div 10) @ [''0123456789'' ! (n mod 10)])"

declare show_nat.simps [simp del]

definition show_int :: "int \<Rightarrow> string" where
  "show_int i = (if i < 0 then ''-'' @ show_nat (nat (- i)) else show_nat (nat i))"

text \<open>
  From \<open>10^21\<close> on a template literal prints a number in exponent notation; that
  text is left to the parameter \<open>exponent_text\<close>.
\<close>

definition template_number :: "(int \<Rightarrow> string) \<Rightarrow> int \<Rightarrow> string" where
  "template_number exponent_text n =
     (if \<bar>n\<bar> < 1000000000000000000000 then show_int n else exponent_text n)"

subsection \<open>Storyboard page (StoryboardView.js)\<close>

record frame =
  frame_id :: string
  frame_description :: string
  page :: int
  frame_on_page :: int
  is_placeholder :: bool
  image_url :: "string option"
  frame_actors :: "string list option"
  feedback_history :: "(string \<times> string) list option"

datatype storyboard_request =
    GetProjectFrames int
  | GenerateFrameImage string string "string list"
  | SubmitFrameFeedback string string "string list option"

record storyboard_state =
  frames :: "frame list"
  storyboard_loading :: bool
  storyboard_error :: "string option"
  selectedFrame :: "frame option"
  showFeedbackModal :: bool
  generatingImage :: "(string \<times> bool) list"
  feedbackText :: string
  selectedActors :: "string list"
  submittingFeedback :: bool
  alerts :: "string list"
  storyboard_requests :: "storyboard_request list"

definition framesPerPage :: nat where
  "framesPerPage = 6"

text \<open>The \<open>i\<close>-th placeholder built for a page on which \<open>n\<close> frames were fetched.\<close>

definition placeholder :: "(int \<Rightarrow> string) \<Rightarrow> int \<Rightarrow> nat \<Rightarrow> nat \<Rightarrow> frame" where
  "placeholder exponent_text pg n i =
     \<lparr>frame_id = ''placeholder-'' @ template_number exponent_text pg @ ''-''
                  @ template_number exponent_text (int i),
      frame_description = ''Empty frame slot'',
      page = pg,
      frame_on_page = int n + int i + 1,
      is_placeholder = True,
      image_url = None,
      frame_actors = None,
      feedback_history = None\<rparr>"

definition fill_page :: "(int \<Rightarrow> string) \<Rightarrow> int \<Rightarrow> frame list \<Rightarrow> frame list" where
  "fill_page exponent_text pg framesData =
     (if length framesData < framesPerPage
      then framesData
             @ map (placeholder exponent_text pg (length framesData))
                   [0 ..< framesPerPage - length framesData]
      else framesData)"

definition fetchFramesForPage ::
  "(int \<Rightarrow> string) \<Rightarrow> (int \<Rightarrow> frame list api_result) \<Rightarrow> int
     \<Rightarrow> storyboard_state \<Rightarrow> storyboard_state" where
  "fetchFramesForPage exponent_text getProjectFrames pg st =
     (let st1 = st\<lparr>storyboard_loading := True,
                    storyboard_requests := storyboard_requests st @ [GetProjectFrames pg]\<rparr>
      in case getProjectFrames pg of
           Ok framesData \<Rightarrow>
             st1\<lparr>frames := fill_page exponent_text pg framesData,
                 storyboard_loading := False\<rparr>
         | Failed _ \<Rightarrow>
             st1\<lparr>storyboard_error :=
                   Some (''Failed to load frames for page '' @ template_number exponent_text pg),
                 storyboard_loading := False\<rparr>)"

definition openFeedbackModal :: "frame \<Rightarrow> storyboard_state \<Rightarrow> storyboard_state" where
  "openFeedbackModal f st =
     (if is_placeholder f then st
      else st\<lparr>selectedFrame := Some f, showFeedbackModal := True\<rparr>)"

text \<open>
  \<open>handleGenerateImage\<close>: the early return for a placeholder still runs the
  \<open>finally\<close> block, which clears the frame's entry of \<open>generatingImage\<close>. The
  response carries the new image URL, absent or empty when none was produced.
\<close>

definition handleGenerateImage ::
  "(string \<Rightarrow> string \<Rightarrow> string list \<Rightarrow> string option api_result)
     \<Rightarrow> frame \<Rightarrow> storyboard_state \<Rightarrow> storyboard_state" where
  "handleGenerateImage generateFrameImage f st =
     (let finally = (\<lambda>s. s\<lparr>generatingImage := set_key (frame_id f) False (generatingImage s)\<rparr>)
      in if is_placeholder f then finally st
         else
           (let actor_names = (case frame_actors f of None \<Rightarrow> [] | Some as \<Rightarrow> as);
                st1 = st\<lparr>generatingImage := set_key (frame_id f) True (generatingImage st),
                         storyboard_requests :=
                           storyboard_requests st
                           @ [GenerateFrameImage (frame_id f) (frame_description f) actor_names]\<rparr>
            in case generateFrameImage (frame_id f) (frame_description f) actor_names of
                 Ok r \<Rightarrow>
                   (case truthy r of
                      Some url \<Rightarrow>
                        finally (st1\<lparr>frames :=
                                   map (\<lambda>g. if frame_id g = frame_id f
                                             then g\<lparr>image_url := Some url\<rparr> else g)
                                       (frames st)\<rparr>)
                    | None \<Rightarrow> finally st1)
               | Failed _ \<Rightarrow>
                   finally (st1\<lparr>storyboard_error :=
                                   Some ''Failed to generate image. Please try again.''\<rparr>)))"

text \<open>
  \<open>handleFeedbackSubmit\<close>: nothing happens without a selected frame or when the
  feedback text is blank after trimming. Otherwise the text is posted as it stands; on
  success every frame carrying the selected frame's id receives the new image URL of the
  response and one more history entry stamped with the current time \<open>now\<close>, and the
  form is reset; on failure an alert is shown.
\<close>

definition record_feedback :: "frame \<Rightarrow> string option \<Rightarrow> string \<Rightarrow> string \<Rightarrow> frame \<Rightarrow> frame" where
  "record_feedback sel new_image_url text now f =
     (if frame_id f = frame_id sel
      then f\<lparr>image_url := new_image_url,
             feedback_history :=
               Some ((case feedback_history f of None \<Rightarrow> [] | Some h \<Rightarrow> h) @ [(text, now)])\<rparr>
      else f)"

definition handleFeedbackSubmit ::
  "(string \<Rightarrow> string \<Rightarrow> string list option \<Rightarrow> string option api_result)
     \<Rightarrow> string \<Rightarrow> storyboard_state \<Rightarrow> storyboard_state" where
  "handleFeedbackSubmit submitFrameFeedback now st =
     (case selectedFrame st of
        None \<Rightarrow> st
      | Some sel \<Rightarrow>
          if js_trim (feedbackText st) = [] then st
          else
            (let actor_names = (if length (selectedActors st) > 0
                                then Some (selectedActors st) else None);
                 st1 = st\<lparr>submittingFeedback := True,
                          storyboard_requests :=
                            storyboard_requests st
                            @ [SubmitFrameFeedback (frame_id sel) (feedbackText st) actor_names]\<rparr>
             in case submitFrameFeedback (frame_id sel) (feedbackText st) actor_names of
                  Ok new_image_url \<Rightarrow>
                    st1\<lparr>frames := map (record_feedback sel new_image_url (feedbackText st) now)
                                      (frames st),
                        showFeedbackModal := False,
                        feedbackText := [],
                        selectedActors := [],
                        submittingFeedback := False\<rparr>
                | Failed _ \<Rightarrow>
                    st1\<lparr>alerts := alerts st @ [''Failed to submit feedback''],
                        submittingFeedback := False\<rparr>))"

subsection \<open>Python sequences and strings\<close>

text \<open>
  List indexing: a negative index counts from the end, an index out of range raises
  \<open>IndexError\<close>.
\<close>

definition py_index :: "'a list \<Rightarrow> int \<Rightarrow> nat option" where
  "py_index xs i =
     (if 0 \<le> i \<and> i < int (length xs) then Some (nat i)
      else if i < 0 \<and> - i \<le> int (length xs) then Some (nat (int (length xs) + i))
      else None)"

definition py_get :: "'a list \<Rightarrow> int \<Rightarrow> py_error + 'a" where
  "py_get xs i = (case py_index xs i of None \<Rightarrow> Inl IndexError | Some j \<Rightarrow> Inr (xs ! j))"

definition py_set :: "'a list \<Rightarrow> int \<Rightarrow> 'a \<Rightarrow> py_error + 'a list" where
  "py_set xs i v = (case py_index xs i of None \<Rightarrow> Inl IndexError | Some j \<Rightarrow> Inr (xs[j := v]))"

text \<open>\<open>sub in s\<close> on strings.\<close>

definition py_in :: "string \<Rightarrow> string \<Rightarrow> bool" where
  "py_in sub s = (find_first sub s \<noteq> None)"

subsection \<open>Actor profile database (implementation guide, Phase 4)\<close>

record 'vec ActorProfileDB =
  vectors :: "string \<rightharpoonup> 'vec"
  metadata :: "string \<rightharpoonup> string"

record 'vec ActorProfile =
  profile_name :: string
  profile_vec :: 'vec
  prompt_hint :: string

definition get_profile :: "'vec ActorProfileDB \<Rightarrow> string \<Rightarrow> 'vec ActorProfile option" where
  "get_profile db nm =
     (case vectors db nm of
        None \<Rightarrow> None
      | Some vec \<Rightarrow>
          (let desc = (case metadata db nm of None \<Rightarrow> [] | Some d \<Rightarrow> d)
           in Some \<lparr>profile_name = nm, profile_vec = vec, prompt_hint = desc\<rparr>))"

text \<open>\<open>update_actor(name, feedback_notes=...)\<close>: no new image is passed by \<open>refine_frame\<close>.\<close>

definition update_actor :: "string \<Rightarrow> string \<Rightarrow> 'vec ActorProfileDB \<Rightarrow> 'vec ActorProfileDB" where
  "update_actor nm feedback_notes db =
     (if vectors db nm = None then db
      else if feedback_notes \<noteq> []
      then db\<lparr>metadata :=
                (metadata db)(nm \<mapsto>
                  (case metadata db nm of None \<Rightarrow> [] | Some d \<Rightarrow> d) @ '' '' @ feedback_notes)\<rparr>
      else db)"

subsection \<open>Feedback processing (implementation guide, Phase 5)\<close>

text \<open>
  The module-level variables read and written by \<open>refine_frame\<close>. The image generator
  \<open>generate_frame_image\<close> is external: it is a parameter that receives the actor
  database it can read, the description, the actors and the model name, and may raise.
  The local variable \<open>actors\<close> is written \<open>actors'\<close>.
\<close>

record ('img, 'vec) storyboard =
  storyboard_frames :: "string list"
  frames_to_actors :: "string list list"
  storyboard_images :: "'img list"
  actor_db :: "'vec ActorProfileDB"
  current_model :: string

definition note_feedback :: "string \<Rightarrow> string list \<Rightarrow> 'vec ActorProfileDB \<Rightarrow> 'vec ActorProfileDB" where
  "note_feedback feedback_text actors' db =
     fold (\<lambda>actor d.
             if py_in actor feedback_text
             then (if py_in ''more'' feedback_text \<or> py_in ''less'' feedback_text
                   then update_actor actor feedback_text d else d)
             else d)
          actors' db"

definition refine_frame ::
  "('vec ActorProfileDB \<Rightarrow> string \<Rightarrow> string list \<Rightarrow> string \<Rightarrow> py_error + 'img)
     \<Rightarrow> int \<Rightarrow> string \<Rightarrow> ('img, 'vec) storyboard
     \<Rightarrow> (py_error + 'img) \<times> ('img, 'vec) storyboard" where
  "refine_frame generate_frame_image frame_index feedback_text st =
     (case py_get (storyboard_frames st) frame_index of
        Inl e \<Rightarrow> (Inl e, st)
      | Inr frame_desc \<Rightarrow>
          (let revised_desc = frame_desc @ ''. Note: '' @ feedback_text
           in case py_get (frames_to_actors st) frame_index of
                Inl e \<Rightarrow> (Inl e, st)
              | Inr actors' \<Rightarrow>
                  (let st1 = st\<lparr>actor_db := note_feedback feedback_text actors' (actor_db st)\<rparr>
                   in case generate_frame_image (actor_db st1) revised_desc actors'
                             (current_model st1) of
                        Inl e \<Rightarrow> (Inl e, st1)
                      | Inr new_image \<Rightarrow>
                          (case py_set (storyboard_images st1) frame_index new_image of
                             Inl e \<Rightarrow> (Inl e, st1)
                           | Inr imgs \<Rightarrow> (Inr new_image, st1\<lparr>storyboard_images := imgs\<rparr>)))))"

subsection \<open>Character variants (implementation guide, Phase 3)\<close>

definition variant_aspects :: "string list" where
  "variant_aspects =
     [''emotional state and facial expression'',
      ''body language and posture'',
      ''interaction with environment'',
      ''lighting and mood'',
      ''cinematography and framing'']"

record ('img, 'q) variant =
  image :: 'img
  prompt :: string
  quality_score :: 'q

text \<open>
  \<open>xs.sort(key=f, reverse=True)\<close>: the list is reversed, sorted by a stable ascending
  sort and reversed again, so equal keys keep their original order.
\<close>

definition py_sort_reverse :: "('a \<Rightarrow> 'q::linorder) \<Rightarrow> 'a list \<Rightarrow> 'a list" where
  "py_sort_reverse f xs = rev (sort_key f (rev xs))"

text \<open>
  The loop body for the indices still to run. The generator's \<open>generate\<close> method and
  \<open>calculate_image_quality\<close> are external parameters; \<open>generate\<close> also receives the
  number of the call, since two calls with one prompt need not give one image.
\<close>

fun variants_loop ::
  "string \<Rightarrow> string \<Rightarrow> string \<Rightarrow> (generator \<Rightarrow> nat \<Rightarrow> string \<Rightarrow> py_error + 'img)
     \<Rightarrow> ('img \<Rightarrow> 'vec ActorProfile \<Rightarrow> 'q) \<Rightarrow> 'vec ActorProfile \<Rightarrow> string
     \<Rightarrow> nat list \<Rightarrow> py_error + ('img, 'q) variant list" where
  "variants_loop key tok model generate calculate_image_quality actor_profile base_prompt [] = Inr []"
| "variants_loop key tok model generate calculate_image_quality actor_profile base_prompt (i # rest) =
     (let variant_prompt =
            base_prompt @ '', with emphasis on ''
              @ variant_aspects ! (i mod length variant_aspects)
      in case get_image_generator key tok model of
           Inl e \<Rightarrow> Inl e
         | Inr g \<Rightarrow>
             (case generate g i variant_prompt of
                Inl e \<Rightarrow> Inl e
              | Inr img \<Rightarrow>
                  (let v = \<lparr>image = img, prompt = variant_prompt,
                            quality_score = calculate_image_quality img actor_profile\<rparr>
                   in case variants_loop key tok model generate calculate_image_quality
                             actor_profile base_prompt rest of
                        Inl e \<Rightarrow> Inl e
                      | Inr vs \<Rightarrow> Inr (v # vs))))"

definition generate_character_variants ::
  "string \<Rightarrow> string \<Rightarrow> string \<Rightarrow> (generator \<Rightarrow> nat \<Rightarrow> string \<Rightarrow> py_error + 'img)
     \<Rightarrow> ('img \<Rightarrow> 'vec ActorProfile \<Rightarrow> 'q::linorder) \<Rightarrow> 'vec ActorProfileDB
     \<Rightarrow> string \<Rightarrow> string \<Rightarrow> int \<Rightarrow> py_error + ('img, 'q) variant list" where
  "generate_character_variants key tok model generate calculate_image_quality db
       actor_name scene_desc num_variants =
     (case get_profile db actor_name of
        None \<Rightarrow> Inl AttributeError
      | Some actor_profile \<Rightarrow>
          (let base_prompt =
                 actor_name @ '', '' @ prompt_hint actor_profile
                   @ '', in a scene where '' @ scene_desc
           in case variants_loop key tok model generate calculate_image_quality
                     actor_profile base_prompt [0 ..< nat num_variants] of
                Inl e \<Rightarrow> Inl e
              | Inr variants \<Rightarrow> Inr (py_sort_reverse quality_score variants)))"

subsection \<open>Script analysis (implementation guide, Phase 2)\<close>

text \<open>
  \<open>str.isspace\<close>, \<open>str.isdigit\<close> and the line boundaries of \<open>str.splitlines\<close>
  for characters with code below 256. Besides the ASCII white space, \<open>isspace\<close> holds
  of the separators 0x1C to 0x1F, of NEL (0x85) and of the no-break space (0xA0);
  \<open>isdigit\<close> holds of the decimal digits and of the superscript digits 0xB2, 0xB3, 0xB9.
\<close>

definition py_isspace :: "char \<Rightarrow> bool" where
  "py_isspace c = ((of_char c :: nat) \<in> {9, 10, 11, 12, 13, 28, 29, 30, 31, 32, 133, 160})"

definition py_isdigit :: "char \<Rightarrow> bool" where
  "py_isdigit c =
     ((48 \<le> (of_char c :: nat) \<and> (of_char c :: nat) \<le> 57)
      \<or> (of_char c :: nat) \<in> {178, 179, 185})"

definition line_boundary :: "char \<Rightarrow> bool" where
  "line_boundary c = ((of_char c :: nat) \<in> {10, 11, 12, 13, 28, 29, 30, 133})"

definition py_strip :: "string \<Rightarrow> string" where
  "py_strip s = rev (dropWhile py_isspace (rev (dropWhile py_isspace s)))"

text \<open>
  \<open>str.splitlines()\<close>: the text is cut at every line boundary, \<open>\r\n\<close> counting as
  one, and a boundary at the very end opens no further line. \<open>acc\<close> is the current line
  in reverse.
\<close>

fun splitlines_from :: "string \<Rightarrow> string \<Rightarrow> string list" where
  "splitlines_from acc [] = (if acc = [] then [] else [rev acc])"
| "splitlines_from acc (c # s) =
     (if (of_char c :: nat) = 13
      then (case s of
              [] \<Rightarrow> [rev acc]
            | d # t \<Rightarrow>
                if (of_char d :: nat) = 10 then rev acc # splitlines_from [] t
                else rev acc # splitlines_from [] (d # t))
      else if line_boundary c then rev acc # splitlines_from [] s
      else splitlines_from (c # acc) s)"

definition py_splitlines :: "string \<Rightarrow> string list" where
  "py_splitlines s = splitlines_from [] s"

text \<open>\<open>s.partition(sep)\<close> for a non-empty separator.\<close>

definition py_partition :: "string \<Rightarrow> string \<Rightarrow> string \<times> string \<times> string" where
  "py_partition sep s =
     (case find_first sep s of
        None \<Rightarrow> (s, [], [])
      | Some (before, after) \<Rightarrow> (before, sep, after))"

definition key_frames_prompt :: "string \<Rightarrow> int \<Rightarrow> string" where
  "key_frames_prompt script_text frame_count =
     ''You are a film storyboard assistant. Read the script below and divide it into ''
     @ show_int frame_count
     @ '' key visual scenes. Provide a brief description for each of the ''
     @ ''frames, focusing on distinct important moments, with any key characters and actions.\<newline>\<newline>''
     @ ''Script:\<newline>'' @ script_text @ ''\<newline>\<newline>Frames:\<newline>1.''"

text \<open>
  The completion API is a parameter: for a prompt it gives the text of the first choice,
  or \<open>None\<close> when the call raises.
\<close>

definition extract_key_frames ::
  "(string \<Rightarrow> string option) \<Rightarrow> string \<Rightarrow> int \<Rightarrow> py_error + string list" where
  "extract_key_frames completion script_text frame_count =
     (case completion (key_frames_prompt script_text frame_count) of
        None \<Rightarrow> Inl APIError
      | Some text \<Rightarrow>
          (let frames_text = py_strip text
           in Inr (map (\<lambda>line. py_strip (snd (snd (py_partition ''.'' line))))
                       (filter (\<lambda>line. py_strip line \<noteq> []
                                        \<and> (case line of [] \<Rightarrow> False | c # _ \<Rightarrow> py_isdigit c))
                               (py_splitlines frames_text)))))"

text \<open>The default \<open>frame_count=6\<close>.\<close>

definition extract_key_frames_default ::
  "(string \<Rightarrow> string option) \<Rightarrow> string \<Rightarrow> py_error + string list" where
  "extract_key_frames_default completion script_text = extract_key_frames completion script_text 6"

subsection \<open>The parsing rule in the words of the specification\<close>

text \<open>
  A line is blank when it has white space only; the text after the first \<open>'.'\<close> of a
  line is what follows its leftmost full stop. \<open>described_frames digit text\<close> goes
  through \<open>text\<close> line by line: a line contributes when it is non-blank and its first
  character satisfies \<open>digit\<close>, and it contributes the trimmed text after its first
  \<open>'.'\<close>.
\<close>

definition decimal_digit :: "char \<Rightarrow> bool" where
  "decimal_digit c = (c \<in> set ''0123456789'')"

definition blank_line :: "string \<Rightarrow> bool" where
  "blank_line l = (\<forall>c \<in> set l. py_isspace c)"

definition text_after_first_dot :: "string \<Rightarrow> string" where
  "text_after_first_dot l = drop 1 (dropWhile (\<lambda>c. c \<noteq> CHR ''.'') l)"

definition described_frames :: "(char \<Rightarrow> bool) \<Rightarrow> string \<Rightarrow> string list" where
  "described_frames digit text =
     map (\<lambda>l. py_strip (text_after_first_dot l))
         (filter (\<lambda>l. \<not> blank_line l \<and> l \<noteq> [] \<and> digit (hd l)) (py_splitlines text))"

subsection \<open>Example states\<close>

definition blank_form_state :: actor_list_state where
  "blank_form_state =
     \<lparr>actors = [], loading = False, error = None, showCreateModal = True,
      createFormData = \<lparr>name = ''  '', description = [], images = Some [''a.png''],
                        auto_generate_image = True\<rparr>,
      createLoading = False, createError = None, requests = []\<rparr>"

definition auto_form_state :: actor_list_state where
  "auto_form_state =
     \<lparr>actors = [], loading = False, error = None, showCreateModal = True,
      createFormData = \<lparr>name = ''Ann'', description = [], images = None,
                        auto_generate_image = True\<rparr>,
      createLoading = False, createError = None, requests = []\<rparr>"

definition one_question :: "question list" where
  "one_question = [\<lparr>question_text = ''Genre?'', explanation = ''Why it matters''\<rparr>]"

definition consultation0 :: "(nat \<times> string) list \<Rightarrow> question list \<Rightarrow> consultation_state" where
  "consultation0 as qs =
     \<lparr>questions = qs, answers = as, evaluation = None, currentStage = ''initial'',
      nextStage = None, submitting = False, consultation_error = None,
      stageProgress = 25, consultation_requests = []\<rparr>"

definition no_next :: "(nat \<times> string) list \<Rightarrow> submit_response api_result" where
  "no_next formatted = Ok \<lparr>evaluation_data = None, next_questions = None, next_stage = None\<rparr>"

definition storyboard0 :: storyboard_state where
  "storyboard0 =
     \<lparr>frames = [], storyboard_loading = False, storyboard_error = None,
      selectedFrame = None, showFeedbackModal = False, generatingImage = [],
      feedbackText = [], selectedActors = [], submittingFeedback = False, alerts = [],
      storyboard_requests = []\<rparr>"

definition fetched_frame :: "string \<Rightarrow> int \<Rightarrow> frame" where
  "fetched_frame fid k =
     \<lparr>frame_id = fid, frame_description = ''INT. ROOM - DAY'', page = 2, frame_on_page = k,
      is_placeholder = False, image_url = None, frame_actors = None,
      feedback_history = None\<rparr>"

definition guide_board :: "(string, unit) storyboard" where
  "guide_board =
     \<lparr>storyboard_frames = [''Alice enters the hall'', ''Bob waits outside''],
      frames_to_actors = [[''Alice''], [''Bob'']],
      storyboard_images = [''hall-v1.png'', ''street-v1.png''],
      actor_db = \<lparr>vectors = [''Alice'' \<mapsto> ()], metadata = [''Alice'' \<mapsto> ''tall'']\<rparr>,
      current_model = ''dalle''\<rparr>"

definition render :: "unit ActorProfileDB \<Rightarrow> string \<Rightarrow> string list \<Rightarrow> string \<Rightarrow> py_error + string" where
  "render db desc names model = Inr (''image of '' @ desc)"

definition shoot :: "generator \<Rightarrow> nat \<Rightarrow> string \<Rightarrow> py_error + nat" where
  "shoot g i p = Inr (length p)"

definition score :: "nat \<Rightarrow> unit ActorProfile \<Rightarrow> nat" where
  "score img prof = img"

definition llm_reply :: "string \<Rightarrow> string \<Rightarrow> string option" where
  "llm_reply text request = Some text"

definition feedback_page :: storyboard_state where
  "feedback_page =
     storyboard0\<lparr>frames := [fetched_frame ''f1'' 1, fetched_frame ''f2'' 2],
                 selectedFrame := Some (fetched_frame ''f1'' 1),
                 showFeedbackModal := True,
                 feedbackText := ''Alice should look more frightened''\<rparr>"

definition blank_feedback_page :: storyboard_state where
  "blank_feedback_page =
     storyboard0\<lparr>frames := [fetched_frame ''f1'' 1, fetched_frame ''f2'' 2],
                 selectedFrame := Some (fetched_frame ''f1'' 1),
                 showFeedbackModal := True,
                 feedbackText := '' ''\<rparr>"

definition page_backend :: "string \<Rightarrow> string \<Rightarrow> string list option \<Rightarrow> string option api_result" where
  "page_backend fid text names = Ok (Some ''/images/f1-v2.png'')"

section \<open>Verified properties\<close>

lemma filter_absent: "x \<notin> set xs \<Longrightarrow> filter (\<lambda>y. y \<noteq> x) xs = xs"
  by (induction xs) auto

text \<open>
  C8. One application of the actor-selection toggle removes every occurrence of the
  name when it is present and appends it exactly once when it is absent; applying the
  toggle twice with the same name gives a list with the same members as the original.
\<close>

theorem C8_toggle_membership:
  "(a \<in> set prev \<longrightarrow>
      handleActorSelection a prev = filter (\<lambda>n. n \<noteq> a) prev
      \<and> a \<notin> set (handleActorSelection a prev)
      \<and> set (handleActorSelection a prev) = set prev - {a})
   \<and> (a \<notin> set prev \<longrightarrow>
      handleActorSelection a prev = prev @ [a]
      \<and> count_list (handleActorSelection a prev) a = 1)
   \<and> set (handleActorSelection a (handleActorSelection a prev)) = set prev"
proof (cases "a \<in> set prev")
  case True
  then show ?thesis by (auto simp: handleActorSelection_def)
next
  case False
  then show ?thesis by (auto simp: handleActorSelection_def filter_absent)
qed

theorem C8_toggle_membership_witness:
  "handleActorSelection ''Bob'' [''Bob'', ''Al'', ''Bob''] = [''Al'']
   \<and> handleActorSelection ''Bob'' [''Al''] = [''Al'', ''Bob'']
   \<and> set (handleActorSelection ''Bob'' (handleActorSelection ''Bob'' [''Bob'', ''Al'', ''Bob'']))
       = set [''Bob'', ''Al'', ''Bob'']"
  using C8_toggle_membership [of "''Bob''" "[''Bob'', ''Al'', ''Bob'']"]
        C8_toggle_membership [of "''Bob''" "[''Al'']"]
  by (auto simp: handleActorSelection_def)

text \<open>
  C6. The stage-progress function maps "initial", "character_development",
  "plot_structure" and "visual_style" to 25, 50, 75 and 100, and leaves the stored
  progress unchanged for every other stage string.
\<close>

theorem C6_stage_progress:
  "updateStageProgress ''initial'' p = 25
   \<and> updateStageProgress ''character_development'' p = 50
   \<and> updateStageProgress ''plot_structure'' p = 75
   \<and> updateStageProgress ''visual_style'' p = 100
   \<and> (stage \<notin> set stages \<longrightarrow> updateStageProgress stage p = p)
   \<and> (\<forall>i < length stages.
         updateStageProgress (stages ! i) p = Math_round (((of_nat i + 1) / 4) * 100))"
proof -
  have known: "updateStageProgress ''initial'' p = 25"
    "updateStageProgress ''character_development'' p = 50"
    "updateStageProgress ''plot_structure'' p = 75"
    "updateStageProgress ''visual_style'' p = 100"
    by (simp_all add: updateStageProgress_def stages_def Math_round_def)
  have absent: "indexOf xs x = -1" if "x \<notin> set xs" for xs :: "string list" and x
    using that by (induction xs) (auto simp: Let_def)
  have other: "stage \<notin> set stages \<longrightarrow> updateStageProgress stage p = p"
    by (simp add: updateStageProgress_def absent)
  have "i < length stages \<Longrightarrow>
        updateStageProgress (stages ! i) p = Math_round (((of_nat i + 1) / 4) * 100)" for i
  proof -
    assume "i < length stages"
    then have "i = 0 \<or> i = 1 \<or> i = 2 \<or> i = 3"
      by (auto simp: stages_def)
    then show ?thesis
      using known by (auto simp: stages_def Math_round_def)
  qed
  with known other show ?thesis by blast
qed

theorem C6_stage_progress_witness:
  "updateStageProgress ''plot_structure'' 25 = 75
   \<and> ''done'' \<notin> set stages \<and> updateStageProgress ''done'' 75 = 75
   \<and> updateStageProgress (stages ! 1) 0 = Math_round (((1 + 1) / 4) * 100)"
  using C6_stage_progress [of 25 "''done''"] C6_stage_progress [of 75 "''done''"]
        C6_stage_progress [of 0 "''done''"]
  by (simp add: stages_def Math_round_def)

text \<open>
  C3. The model factory returns the Stable Diffusion generator for "stable_diffusion"
  and the DALL-E generator for "dalle"; for every model name outside
  {"stable_diffusion", "dalle", "midjourney"} it raises ValueError("Unsupported model")
  and returns no generator.
\<close>

theorem C3_model_factory:
  "get_image_generator key tok ''stable_diffusion'' = Inr StableDiffusionGenerator
   \<and> get_image_generator key tok ''dalle'' = Inr (DalleGenerator key)
   \<and> (m \<notin> {''stable_diffusion'', ''dalle'', ''midjourney''} \<longrightarrow>
        get_image_generator key tok m = Inl (ValueError ''Unsupported model''))"
  by (simp add: get_image_generator_def)

theorem C3_model_factory_witness:
  "''imagen'' \<notin> {''stable_diffusion'', ''dalle'', ''midjourney''}
   \<and> get_image_generator ''k'' ''t'' ''imagen'' = Inl (ValueError ''Unsupported model'')"
  using C3_model_factory [of "''k''" "''t''" "''imagen''"]
  by simp

lemma startsWith_Cons: "startsWith u (c # p) \<Longrightarrow> u \<noteq> [] \<and> hd u = c"
  by (cases u) auto

text \<open>
  C9. The image-URL formatter returns a result on every argument: a string starting
  with "http" is returned unchanged; null, undefined and the empty string give null;
  every other non-empty string gives the API base URL followed by a path that starts
  with '/'.
\<close>

theorem C9_formatImageUrl_total:
  "(startsWith u ''http'' \<longrightarrow> formatImageUrl env (Str u) = Some u)
   \<and> formatImageUrl env Null = None
   \<and> formatImageUrl env Undefined = None
   \<and> formatImageUrl env (Str []) = None
   \<and> (u \<noteq> [] \<and> \<not> startsWith u ''http'' \<longrightarrow>
        (\<exists>path. formatImageUrl env (Str u) = Some (baseUrl env @ path)
                \<and> path \<noteq> [] \<and> hd path = CHR ''/''))"
proof -
  have http: "startsWith u ''http'' \<longrightarrow> formatImageUrl env (Str u) = Some u"
    using startsWith_Cons [of u "CHR ''h''" "''ttp''"]
    by (auto simp: formatImageUrl_def)
  have nulls: "formatImageUrl env Null = None" "formatImageUrl env Undefined = None"
    "formatImageUrl env (Str []) = None"
    by (simp_all add: formatImageUrl_def)
  have other: "\<exists>path. formatImageUrl env (Str u) = Some (baseUrl env @ path)
                \<and> path \<noteq> [] \<and> hd path = CHR ''/''"
    if "u \<noteq> []" "\<not> startsWith u ''http''"
  proof -
    have slash: "startsWith u (CHR ''/'' # p) \<Longrightarrow> hd u = CHR ''/''" for p
      using startsWith_Cons by blast
    show ?thesis
      using that slash [of "[]"] slash [of "''images/''"] slash [of "''frame-images/''"]
      by (simp add: formatImageUrl_def Let_def)
  qed
  from http nulls other show ?thesis by blast
qed

theorem C9_formatImageUrl_total_witness:
  "formatImageUrl None (Str ''https://x/y.png'') = Some ''https://x/y.png''
   \<and> formatImageUrl None (Str ''static/actor_images/a.png'')
       = Some (baseUrl None @ ''/actor-images/a.png'')
   \<and> formatImageUrl (Some ''https://api'') (Str ''pic.png'') = Some ''https://api/pic.png''"
  using C9_formatImageUrl_total [of "''https://x/y.png''" None]
        C9_formatImageUrl_total [of "''static/actor_images/a.png''" None]
        C9_formatImageUrl_total [of "''pic.png''" "Some ''https://api''"]
  by (simp add: formatImageUrl_def js_includes_def js_split_def template_elem_def baseUrl_def)

text \<open>
  C4. When the actor name is blank after trimming, or auto-generation is off and the
  uploaded images are empty or missing, no create request is sent, an error message is
  set and the actor list is unchanged; a create request is sent only when the name is
  non-blank and auto-generation is selected or at least one image was uploaded.
\<close>

theorem C4_create_validation:
  "(js_trim (name (createFormData st)) = []
      \<or> (\<not> auto_generate_image (createFormData st)
          \<and> (images (createFormData st) = None \<or> images (createFormData st) = Some []))
     \<longrightarrow> requests (handleCreateSubmit createActor getActors st) = requests st
         \<and> createError (handleCreateSubmit createActor getActors st)
             = Some (if js_trim (name (createFormData st)) = []
                     then ''Actor name is required''
                     else ''Please either upload images or select auto-generate'')
         \<and> actors (handleCreateSubmit createActor getActors st) = actors st)
   \<and> (requests (handleCreateSubmit createActor getActors st) \<noteq> requests st
     \<longrightarrow> js_trim (name (createFormData st)) \<noteq> []
         \<and> (auto_generate_image (createFormData st)
              \<or> (\<exists>f fs. images (createFormData st) = Some (f # fs)))
         \<and> take (Suc (length (requests st))) (requests (handleCreateSubmit createActor getActors st))
             = requests st @ [CreateActor (createFormData st)])"
proof -
  have refused: "requests (handleCreateSubmit createActor getActors st) = requests st
         \<and> createError (handleCreateSubmit createActor getActors st)
             = Some (if js_trim (name (createFormData st)) = []
                     then ''Actor name is required''
                     else ''Please either upload images or select auto-generate'')
         \<and> actors (handleCreateSubmit createActor getActors st) = actors st"
    if "js_trim (name (createFormData st)) = []
      \<or> (\<not> auto_generate_image (createFormData st)
          \<and> (images (createFormData st) = None \<or> images (createFormData st) = Some []))"
    using that by (auto simp: handleCreateSubmit_def Let_def)
  have sent: "js_trim (name (createFormData st)) \<noteq> []
         \<and> (auto_generate_image (createFormData st)
              \<or> (\<exists>f fs. images (createFormData st) = Some (f # fs)))
         \<and> take (Suc (length (requests st))) (requests (handleCreateSubmit createActor getActors st))
             = requests st @ [CreateActor (createFormData st)]"
    if ch: "requests (handleCreateSubmit createActor getActors st) \<noteq> requests st"
  proof -
    have "\<not> (js_trim (name (createFormData st)) = []
      \<or> (\<not> auto_generate_image (createFormData st)
          \<and> (images (createFormData st) = None \<or> images (createFormData st) = Some [])))"
      using ch refused by metis
    then have valid: "js_trim (name (createFormData st)) \<noteq> []
      \<and> (auto_generate_image (createFormData st)
        \<or> (images (createFormData st) \<noteq> None \<and> images (createFormData st) \<noteq> Some []))"
      by auto
    then have imgs: "auto_generate_image (createFormData st)
              \<or> (\<exists>f fs. images (createFormData st) = Some (f # fs))"
      by (cases "images (createFormData st)") (auto simp: neq_Nil_conv)
    have "take (Suc (length (requests st))) (requests (handleCreateSubmit createActor getActors st))
             = requests st @ [CreateActor (createFormData st)]"
      using valid
      by (auto simp: handleCreateSubmit_def Let_def fetchActors_def
               split: api_result.splits)
    with valid imgs show ?thesis by blast
  qed
  from refused sent show ?thesis by blast
qed

theorem C4_create_validation_witness:
  "js_trim (name (createFormData blank_form_state)) = []
   \<and> requests (handleCreateSubmit (\<lambda>_. Ok ()) (Ok []) blank_form_state) = []
   \<and> createError (handleCreateSubmit (\<lambda>_. Ok ()) (Ok []) blank_form_state)
       = Some ''Actor name is required''
   \<and> requests (handleCreateSubmit (\<lambda>_. Ok ()) (Ok []) auto_form_state) \<noteq> requests auto_form_state
   \<and> take 1 (requests (handleCreateSubmit (\<lambda>_. Ok ()) (Ok []) auto_form_state))
       = [CreateActor (createFormData auto_form_state)]"
proof -
  have blank: "js_trim (name (createFormData blank_form_state)) = []"
    by (simp add: blank_form_state_def js_trim_def js_isspace_def)
  have sent: "requests (handleCreateSubmit (\<lambda>_. Ok ()) (Ok []) auto_form_state)
                \<noteq> requests auto_form_state"
    by (simp add: auto_form_state_def handleCreateSubmit_def fetchActors_def Let_def
                  js_trim_def js_isspace_def)
  show ?thesis
    using blank sent
          C4_create_validation [of blank_form_state "\<lambda>_. Ok ()" "Ok []"]
          C4_create_validation [of auto_form_state "\<lambda>_. Ok ()" "Ok []"]
    by (simp add: blank_form_state_def auto_form_state_def)
qed

lemma length_keys_less:
  assumes "\<forall>k \<in> set (Object_keys obj). k < n" and "i < n" and "map_of obj i = None"
  shows "length (Object_keys obj) < n"
proof -
  have d: "distinct (Object_keys obj)"
    by (simp add: Object_keys_def)
  have "i \<notin> set (Object_keys obj)"
    using assms(3) by (simp add: Object_keys_def map_of_eq_None_iff)
  then have "set (Object_keys obj) \<subseteq> {..<n} - {i}"
    using assms(1) by auto
  then have "card (set (Object_keys obj)) \<le> card ({..<n} - {i})"
    by (intro card_mono) auto
  also have "\<dots> < n"
    using assms(2) by simp
  finally show ?thesis
    using d by (simp add: distinct_card)
qed

text \<open>
  What the guard of \<open>handleSubmitAnswers\<close> does check: a request is made only when
  the number of keys of the answers object equals the number of questions; when the two
  numbers differ the handler sets the error message and changes nothing else. When
  every key is the index of a question, a question without a key makes the numbers
  differ.
\<close>

lemma handleSubmitAnswers_guard:
  "(length (Object_keys (answers st)) \<noteq> length (questions st) \<longrightarrow>
      handleSubmitAnswers submitAnswers st
        = st\<lparr>consultation_error := Some ''Please answer all questions before submitting''\<rparr>)
   \<and> (consultation_requests (handleSubmitAnswers submitAnswers st) \<noteq> consultation_requests st \<longrightarrow>
        length (Object_keys (answers st)) = length (questions st)
        \<and> take (Suc (length (consultation_requests st)))
             (consultation_requests (handleSubmitAnswers submitAnswers st))
            = consultation_requests st
              @ [SubmitAnswers (map (\<lambda>i. (i, answer_or_empty (answers st) i))
                                    [0 ..< length (questions st)])])
   \<and> ((\<forall>k \<in> set (Object_keys (answers st)). k < length (questions st))
        \<and> (\<exists>i < length (questions st). map_of (answers st) i = None) \<longrightarrow>
        handleSubmitAnswers submitAnswers st
          = st\<lparr>consultation_error := Some ''Please answer all questions before submitting''\<rparr>)"
proof -
  have refused: "handleSubmitAnswers submitAnswers st
        = st\<lparr>consultation_error := Some ''Please answer all questions before submitting''\<rparr>"
    if "length (Object_keys (answers st)) \<noteq> length (questions st)"
    using that by (simp add: handleSubmitAnswers_def)
  have keep: "consultation_requests (apply_response r s) = consultation_requests s" for r s
    by (simp add: apply_response_def Let_def split: option.splits)
  have sent: "length (Object_keys (answers st)) = length (questions st)
        \<and> take (Suc (length (consultation_requests st)))
             (consultation_requests (handleSubmitAnswers submitAnswers st))
            = consultation_requests st
              @ [SubmitAnswers (map (\<lambda>i. (i, answer_or_empty (answers st) i))
                                    [0 ..< length (questions st)])]"
    if ch: "consultation_requests (handleSubmitAnswers submitAnswers st) \<noteq> consultation_requests st"
  proof -
    have eq: "length (Object_keys (answers st)) = length (questions st)"
      using ch refused by force
    then show ?thesis
      by (simp add: handleSubmitAnswers_def Let_def keep split: api_result.splits)
  qed
  have unanswered: "handleSubmitAnswers submitAnswers st
          = st\<lparr>consultation_error := Some ''Please answer all questions before submitting''\<rparr>"
    if "(\<forall>k \<in> set (Object_keys (answers st)). k < length (questions st))
        \<and> (\<exists>i < length (questions st). map_of (answers st) i = None)"
  proof -
    from that obtain i where "i < length (questions st)" "map_of (answers st) i = None"
      by blast
    with that have "length (Object_keys (answers st)) < length (questions st)"
      using length_keys_less by blast
    then show ?thesis
      using refused by simp
  qed
  from refused sent unanswered show ?thesis by blast
qed

lemma handleSubmitAnswers_guard_example:
  "length (Object_keys (answers (consultation0 [] one_question)))
     \<noteq> length (questions (consultation0 [] one_question))
   \<and> handleSubmitAnswers no_next (consultation0 [] one_question)
       = (consultation0 [] one_question)
           \<lparr>consultation_error := Some ''Please answer all questions before submitting''\<rparr>
   \<and> consultation_requests (handleSubmitAnswers no_next (consultation0 [(0, ''Noir'')] one_question))
       = [SubmitAnswers [(0, ''Noir'')]]"
proof -
  have sent: "consultation_requests
                (handleSubmitAnswers no_next (consultation0 [(0, ''Noir'')] one_question))
              \<noteq> consultation_requests (consultation0 [(0, ''Noir'')] one_question)"
    by (simp add: handleSubmitAnswers_def consultation0_def one_question_def no_next_def
                  Object_keys_def apply_response_def truthy_def Let_def)
  have unanswered:
    "(\<forall>k \<in> set (Object_keys (answers (consultation0 [] one_question))).
         k < length (questions (consultation0 [] one_question)))
     \<and> (\<exists>i < length (questions (consultation0 [] one_question)).
           map_of (answers (consultation0 [] one_question)) i = None)"
    by (simp add: consultation0_def one_question_def Object_keys_def)
  show ?thesis
    using sent unanswered
          handleSubmitAnswers_guard [of "consultation0 [] one_question" no_next]
          handleSubmitAnswers_guard [of "consultation0 [(0, ''Noir'')] one_question" no_next]
    by (simp add: consultation0_def one_question_def Object_keys_def answer_or_empty_def
                  handleSubmitAnswers_def no_next_def apply_response_def truthy_def Let_def)
qed

text \<open>
  C5. The answers are to be submitted only when every question of the stage is
  answered; with any question unanswered, submission is to be refused with the message
  'Please answer all questions before submitting' and no request made. The handler's
  own comment says the same ("Validate all questions have answers"), but its check
  only compares the number of keys with the number of questions. With one question,
  after an answer to question 0 was typed and erased again the recorded answer is the
  empty string, the counts agree, no error is set and the request is sent with an
  empty answer for question 0. The same happens when the only recorded answer is
  stored under index 1: question 0 has no answer and is submitted as empty.
\<close>

theorem C5_unanswered_question_submitted:
  "map_of (answers (consultation0 [(1, ''Noir'')] one_question)) 0 = None
   \<and> 0 < length (questions (consultation0 [(1, ''Noir'')] one_question))
   \<and> consultation_requests (handleSubmitAnswers no_next (consultation0 [(1, ''Noir'')] one_question))
       = [SubmitAnswers [(0, [])]]
   \<and> consultation_error (handleSubmitAnswers no_next (consultation0 [(1, ''Noir'')] one_question))
       = None
   \<and> answers (handleAnswerChange 0 [] (handleAnswerChange 0 ''N'' (consultation0 [] one_question)))
       = [(0, [])]
   \<and> consultation_requests
         (handleSubmitAnswers no_next
            (handleAnswerChange 0 [] (handleAnswerChange 0 ''N'' (consultation0 [] one_question))))
       = [SubmitAnswers [(0, [])]]
   \<and> consultation_error
         (handleSubmitAnswers no_next
            (handleAnswerChange 0 [] (handleAnswerChange 0 ''N'' (consultation0 [] one_question))))
       = None"
  by (simp add: handleSubmitAnswers_def handleAnswerChange_def consultation0_def
                one_question_def no_next_def Object_keys_def apply_response_def truthy_def
                answer_or_empty_def Let_def)

text \<open>
  C10. After a successful fetch of \<open>n\<close> frames for a page, the displayed list has
  length \<open>max n 6\<close>; the fetched frames come first, unchanged and in order; when
  \<open>n < 6\<close> the remaining \<open>6 - n\<close> entries are placeholders marked \<open>is_placeholder\<close>,
  carrying the page number and \<open>frame_on_page\<close> numbers \<open>n + 1, n + 2, \<dots>\<close>. A
  placeholder frame never opens the feedback modal and never triggers image generation.
\<close>

theorem C10_page_filled_with_placeholders:
  "(getProjectFrames pg = Ok framesData \<longrightarrow>
      length (frames (fetchFramesForPage exponent_text getProjectFrames pg st)) = max (length framesData) 6
      \<and> take (length framesData) (frames (fetchFramesForPage exponent_text getProjectFrames pg st)) = framesData
      \<and> (\<forall>j < 6 - length framesData.
            is_placeholder (frames (fetchFramesForPage exponent_text getProjectFrames pg st) ! (length framesData + j))
            \<and> page (frames (fetchFramesForPage exponent_text getProjectFrames pg st) ! (length framesData + j)) = pg
            \<and> frame_on_page (frames (fetchFramesForPage exponent_text getProjectFrames pg st) ! (length framesData + j))
                = int (length framesData) + int j + 1))
   \<and> (is_placeholder f \<longrightarrow>
        openFeedbackModal f st = st
        \<and> storyboard_requests (handleGenerateImage generateFrameImage f st) = storyboard_requests st
        \<and> frames (handleGenerateImage generateFrameImage f st) = frames st)"
proof -
  have fetched: "frames (fetchFramesForPage exponent_text getProjectFrames pg st) = fill_page exponent_text pg framesData"
    if "getProjectFrames pg = Ok framesData"
    using that by (simp add: fetchFramesForPage_def)
  have len: "length (fill_page exponent_text pg framesData) = max (length framesData) 6"
    by (simp add: fill_page_def framesPerPage_def)
  have keep: "take (length framesData) (fill_page exponent_text pg framesData) = framesData"
    by (simp add: fill_page_def)
  have slot: "fill_page exponent_text pg framesData ! (length framesData + j)
                = placeholder exponent_text pg (length framesData) j"
    if "j < 6 - length framesData" for j
    using that by (simp add: fill_page_def framesPerPage_def nth_append)
  have ph: "is_placeholder (placeholder exponent_text pg n j) \<and> page (placeholder exponent_text pg n j) = pg
            \<and> frame_on_page (placeholder exponent_text pg n j) = int n + int j + 1" for n j
    by (simp add: placeholder_def)
  have inert: "openFeedbackModal f st = st
        \<and> storyboard_requests (handleGenerateImage generateFrameImage f st) = storyboard_requests st
        \<and> frames (handleGenerateImage generateFrameImage f st) = frames st"
    if "is_placeholder f"
    using that by (simp add: openFeedbackModal_def handleGenerateImage_def)
  from fetched len keep slot ph inert show ?thesis by simp
qed

theorem C10_page_filled_with_placeholders_witness:
  "length (frames (fetchFramesForPage show_int
             (\<lambda>_. Ok [fetched_frame ''f1'' 1, fetched_frame ''f2'' 2]) 2 storyboard0)) = 6
   \<and> frame_on_page (frames (fetchFramesForPage show_int
             (\<lambda>_. Ok [fetched_frame ''f1'' 1, fetched_frame ''f2'' 2]) 2 storyboard0) ! 2) = 3
   \<and> is_placeholder (placeholder show_int 2 2 0)
   \<and> openFeedbackModal (placeholder show_int 2 2 0) storyboard0 = storyboard0
   \<and> storyboard_requests (handleGenerateImage (\<lambda>_ _ _. Ok (Some ''/x.png'')) (placeholder show_int 2 2 0) storyboard0)
       = []"
proof -
  note T = C10_page_filled_with_placeholders
        [where exponent_text = show_int
           and getProjectFrames = "\<lambda>_. Ok [fetched_frame ''f1'' 1, fetched_frame ''f2'' 2]"
           and pg = 2 and framesData = "[fetched_frame ''f1'' 1, fetched_frame ''f2'' 2]"
           and st = storyboard0 and f = "placeholder show_int 2 2 0"
           and generateFrameImage = "\<lambda>_ _ _. Ok (Some ''/x.png'')"]
  have ph: "is_placeholder (placeholder show_int 2 2 0)"
    by (simp add: placeholder_def)
  have idx: "(0::nat) < 6 - length [fetched_frame ''f1'' 1, fetched_frame ''f2'' 2]"
    by simp
  from T have len: "length (frames (fetchFramesForPage show_int
             (\<lambda>_. Ok [fetched_frame ''f1'' 1, fetched_frame ''f2'' 2]) 2 storyboard0))
          = max (length [fetched_frame ''f1'' 1, fetched_frame ''f2'' 2]) 6"
    by blast
  from T idx have slot: "frame_on_page (frames (fetchFramesForPage show_int
             (\<lambda>_. Ok [fetched_frame ''f1'' 1, fetched_frame ''f2'' 2]) 2 storyboard0)
               ! (length [fetched_frame ''f1'' 1, fetched_frame ''f2'' 2] + 0))
          = int (length [fetched_frame ''f1'' 1, fetched_frame ''f2'' 2]) + int 0 + 1"
    by blast
  from T ph have inert: "openFeedbackModal (placeholder show_int 2 2 0) storyboard0 = storyboard0
     \<and> storyboard_requests
          (handleGenerateImage (\<lambda>_ _ _. Ok (Some ''/x.png'')) (placeholder show_int 2 2 0) storyboard0)
        = storyboard_requests storyboard0"
    by blast
  have "storyboard_requests storyboard0 = []"
    by (simp add: storyboard0_def)
  with ph len slot inert show ?thesis
    by (simp add: numeral_2_eq_2)
qed

text \<open>
  C1 (as amended). For a frame with description \<open>d\<close> and a feedback text \<open>t\<close> that
  is not blank after trimming, submitting the feedback posts \<open>t\<close> unchanged for the
  selected frame, and the answer replaces the image of the frames with that frame's id
  and of no other frame. \<open>refine_frame\<close> regenerates the image from the prompt
  \<open>d + ". Note: " + t\<close> and stores it as the image of that frame, leaving the image of
  every other frame as it was. The generator is consulted at that prompt only: two
  generators that agree on it give the same outcome.
\<close>

theorem C1_refine_frame:
  assumes idx: "0 \<le> frame_index" "nat frame_index < length (storyboard_frames st)"
      "nat frame_index < length (frames_to_actors st)"
      "nat frame_index < length (storyboard_images st)"
    and fb: "feedback_text \<noteq> []"
    and d: "d = storyboard_frames st ! nat frame_index"
    and gen: "generate_frame_image
                (note_feedback feedback_text (frames_to_actors st ! nat frame_index) (actor_db st))
                (d @ ''. Note: '' @ feedback_text)
                (frames_to_actors st ! nat frame_index) (current_model st) = Inr new_image"
  shows "fst (refine_frame generate_frame_image frame_index feedback_text st) = Inr new_image
    \<and> storyboard_images (snd (refine_frame generate_frame_image frame_index feedback_text st))
        = (storyboard_images st)[nat frame_index := new_image]
    \<and> storyboard_images (snd (refine_frame generate_frame_image frame_index feedback_text st))
        ! nat frame_index = new_image
    \<and> (\<forall>j. j \<noteq> nat frame_index \<longrightarrow>
          storyboard_images (snd (refine_frame generate_frame_image frame_index feedback_text st)) ! j
          = storyboard_images st ! j)
    \<and> storyboard_frames (snd (refine_frame generate_frame_image frame_index feedback_text st))
        = storyboard_frames st
    \<and> ((\<forall>db names model. other_generator db (d @ ''. Note: '' @ feedback_text) names model
            = generate_frame_image db (d @ ''. Note: '' @ feedback_text) names model) \<longrightarrow>
         refine_frame other_generator frame_index feedback_text st
         = refine_frame generate_frame_image frame_index feedback_text st)
    \<and> (selectedFrame ui = Some sel \<and> feedbackText ui = feedback_text
         \<and> js_trim feedback_text \<noteq> [] \<longrightarrow>
         storyboard_requests (handleFeedbackSubmit submitFrameFeedback now ui)
           = storyboard_requests ui
             @ [SubmitFrameFeedback (frame_id sel) feedback_text
                  (if length (selectedActors ui) > 0 then Some (selectedActors ui) else None)]
         \<and> length (frames (handleFeedbackSubmit submitFrameFeedback now ui)) = length (frames ui)
         \<and> (submitFrameFeedback (frame_id sel) feedback_text
               (if length (selectedActors ui) > 0 then Some (selectedActors ui) else None)
             = Ok new_image_url \<longrightarrow>
             (\<forall>k < length (frames ui).
               (frame_id (frames ui ! k) = frame_id sel \<longrightarrow>
                  image_url (frames (handleFeedbackSubmit submitFrameFeedback now ui) ! k)
                    = new_image_url)
               \<and> (frame_id (frames ui ! k) \<noteq> frame_id sel \<longrightarrow>
                  frames (handleFeedbackSubmit submitFrameFeedback now ui) ! k = frames ui ! k))))"
proof -
  have at: "py_index xs frame_index = Some (nat frame_index)"
    if "nat frame_index < length xs" for xs :: "'x list"
    using that idx(1) by (simp add: py_index_def)
  have run: "refine_frame g frame_index feedback_text st
      = (Inr new_image,
         st\<lparr>actor_db := note_feedback feedback_text (frames_to_actors st ! nat frame_index)
                           (actor_db st),
            storyboard_images := (storyboard_images st)[nat frame_index := new_image]\<rparr>)"
    if "g (note_feedback feedback_text (frames_to_actors st ! nat frame_index) (actor_db st))
          (d @ ''. Note: '' @ feedback_text)
          (frames_to_actors st ! nat frame_index) (current_model st) = Inr new_image" for g
    using that idx d
    by (simp add: refine_frame_def py_get_def py_set_def at Let_def)
  have same: "refine_frame other_generator frame_index feedback_text st
         = refine_frame generate_frame_image frame_index feedback_text st"
    if "\<forall>db names model. other_generator db (d @ ''. Note: '' @ feedback_text) names model
            = generate_frame_image db (d @ ''. Note: '' @ feedback_text) names model"
    using that gen run [of other_generator] run [of generate_frame_image] by simp
  from gen have ran: "refine_frame generate_frame_image frame_index feedback_text st
      = (Inr new_image,
         st\<lparr>actor_db := note_feedback feedback_text (frames_to_actors st ! nat frame_index)
                           (actor_db st),
            storyboard_images := (storyboard_images st)[nat frame_index := new_image]\<rparr>)"
    by (rule run)
  have stored: "(storyboard_images st)[nat frame_index := new_image] ! nat frame_index = new_image"
    using idx(4) by simp
  have backend: "fst (refine_frame generate_frame_image frame_index feedback_text st) = Inr new_image
    \<and> storyboard_images (snd (refine_frame generate_frame_image frame_index feedback_text st))
        = (storyboard_images st)[nat frame_index := new_image]
    \<and> storyboard_images (snd (refine_frame generate_frame_image frame_index feedback_text st))
        ! nat frame_index = new_image
    \<and> (\<forall>j. j \<noteq> nat frame_index \<longrightarrow>
          storyboard_images (snd (refine_frame generate_frame_image frame_index feedback_text st)) ! j
          = storyboard_images st ! j)
    \<and> storyboard_frames (snd (refine_frame generate_frame_image frame_index feedback_text st))
        = storyboard_frames st
    \<and> ((\<forall>db names model. other_generator db (d @ ''. Note: '' @ feedback_text) names model
            = generate_frame_image db (d @ ''. Note: '' @ feedback_text) names model) \<longrightarrow>
         refine_frame other_generator frame_index feedback_text st
         = refine_frame generate_frame_image frame_index feedback_text st)"
    using same stored by (simp add: ran)
  have page: "storyboard_requests (handleFeedbackSubmit submitFrameFeedback now ui)
           = storyboard_requests ui
             @ [SubmitFrameFeedback (frame_id sel) feedback_text
                  (if length (selectedActors ui) > 0 then Some (selectedActors ui) else None)]
         \<and> length (frames (handleFeedbackSubmit submitFrameFeedback now ui)) = length (frames ui)
         \<and> (submitFrameFeedback (frame_id sel) feedback_text
               (if length (selectedActors ui) > 0 then Some (selectedActors ui) else None)
             = Ok new_image_url \<longrightarrow>
             (\<forall>k < length (frames ui).
               (frame_id (frames ui ! k) = frame_id sel \<longrightarrow>
                  image_url (frames (handleFeedbackSubmit submitFrameFeedback now ui) ! k)
                    = new_image_url)
               \<and> (frame_id (frames ui ! k) \<noteq> frame_id sel \<longrightarrow>
                  frames (handleFeedbackSubmit submitFrameFeedback now ui) ! k = frames ui ! k)))"
    if sent: "selectedFrame ui = Some sel \<and> feedbackText ui = feedback_text
         \<and> js_trim feedback_text \<noteq> []"
  proof -
    let ?names = "if length (selectedActors ui) > 0 then Some (selectedActors ui) else None"
    let ?posted = "ui\<lparr>submittingFeedback := True,
                      storyboard_requests :=
                        storyboard_requests ui
                        @ [SubmitFrameFeedback (frame_id sel) feedback_text ?names]\<rparr>"
    have res: "handleFeedbackSubmit submitFrameFeedback now ui
        = (case submitFrameFeedback (frame_id sel) feedback_text ?names of
             Ok url \<Rightarrow>
               ?posted\<lparr>frames := map (record_feedback sel url feedback_text now) (frames ui),
                        showFeedbackModal := False, feedbackText := [], selectedActors := [],
                        submittingFeedback := False\<rparr>
           | Failed x \<Rightarrow>
               ?posted\<lparr>alerts := alerts ui @ [''Failed to submit feedback''],
                        submittingFeedback := False\<rparr>)"
      using sent
      by (auto simp: handleFeedbackSubmit_def Let_def split: api_result.splits)
    show ?thesis
      unfolding res
      by (cases "submitFrameFeedback (frame_id sel) feedback_text ?names")
         (simp_all add: record_feedback_def)
  qed
  from backend page show ?thesis
    by blast
qed

theorem C1_refine_frame_witness:
  "fst (refine_frame render 0 ''Alice should look more frightened'' guide_board)
     = Inr ''image of Alice enters the hall. Note: Alice should look more frightened''
   \<and> storyboard_images (snd (refine_frame render 0 ''Alice should look more frightened'' guide_board))
     = [''image of Alice enters the hall. Note: Alice should look more frightened'',
        ''street-v1.png'']
   \<and> js_trim ''Alice should look more frightened'' \<noteq> []
   \<and> storyboard_requests (handleFeedbackSubmit page_backend ''2025-01-01T00:00:00.000Z'' feedback_page)
     = [SubmitFrameFeedback ''f1'' ''Alice should look more frightened'' None]
   \<and> map image_url (frames (handleFeedbackSubmit page_backend ''2025-01-01T00:00:00.000Z'' feedback_page))
     = [Some ''/images/f1-v2.png'', None]"
proof -
  have h1: "(0::int) \<le> 0"
    by simp
  have h2: "nat 0 < length (storyboard_frames guide_board)"
    and h3: "nat 0 < length (frames_to_actors guide_board)"
    and h4: "nat 0 < length (storyboard_images guide_board)"
    by (simp_all add: guide_board_def)
  have h5: "''Alice should look more frightened'' \<noteq> []"
    by simp
  have h6: "''Alice enters the hall'' = storyboard_frames guide_board ! nat 0"
    by (simp add: guide_board_def)
  have gen: "render (note_feedback ''Alice should look more frightened''
                       (frames_to_actors guide_board ! nat 0) (actor_db guide_board))
               (''Alice enters the hall'' @ ''. Note: '' @ ''Alice should look more frightened'')
               (frames_to_actors guide_board ! nat 0) (current_model guide_board)
             = Inr (''image of '' @ ''Alice enters the hall'' @ ''. Note: ''
                     @ ''Alice should look more frightened'')"
    by (simp only: render_def)
  note T = C1_refine_frame
      [where frame_index = 0 and st = guide_board and generate_frame_image = render
         and other_generator = render and d = "''Alice enters the hall''"
         and feedback_text = "''Alice should look more frightened''"
         and new_image = "''image of '' @ ''Alice enters the hall'' @ ''. Note: ''
                     @ ''Alice should look more frightened''"
         and ui = feedback_page and sel = "fetched_frame ''f1'' 1"
         and submitFrameFeedback = page_backend and now = "''2025-01-01T00:00:00.000Z''"
         and new_image_url = "Some ''/images/f1-v2.png''",
       OF h1 h2 h3 h4 h5 h6 gen]
  from T have res: "fst (refine_frame render 0 ''Alice should look more frightened'' guide_board)
          = Inr (''image of '' @ ''Alice enters the hall'' @ ''. Note: ''
                     @ ''Alice should look more frightened'')"
    by (rule conjunct1)
  from T have img: "storyboard_images
            (snd (refine_frame render 0 ''Alice should look more frightened'' guide_board))
          = (storyboard_images guide_board)
              [nat 0 := ''image of '' @ ''Alice enters the hall'' @ ''. Note: ''
                     @ ''Alice should look more frightened'']"
    by (rule conjunct1 [OF conjunct2])
  have imgs: "(storyboard_images guide_board)[nat 0 := x] = [x, ''street-v1.png'']" for x
    by (simp add: guide_board_def)
  have nonblank: "js_trim ''Alice should look more frightened'' \<noteq> []"
    by (simp add: js_trim_def js_isspace_def)
  have sel: "selectedFrame feedback_page = Some (fetched_frame ''f1'' 1)
      \<and> feedbackText feedback_page = ''Alice should look more frightened''"
    by (simp add: feedback_page_def storyboard0_def)
  have answer: "page_backend (frame_id (fetched_frame ''f1'' 1)) ''Alice should look more frightened''
            (if length (selectedActors feedback_page) > 0
             then Some (selectedActors feedback_page) else None)
          = Ok (Some ''/images/f1-v2.png'')"
    by (simp only: page_backend_def)
  from T sel nonblank have posted:
    "storyboard_requests (handleFeedbackSubmit page_backend ''2025-01-01T00:00:00.000Z'' feedback_page)
       = storyboard_requests feedback_page
         @ [SubmitFrameFeedback (frame_id (fetched_frame ''f1'' 1))
              ''Alice should look more frightened''
              (if length (selectedActors feedback_page) > 0
               then Some (selectedActors feedback_page) else None)]"
    and len: "length (frames (handleFeedbackSubmit page_backend ''2025-01-01T00:00:00.000Z''
                                feedback_page))
              = length (frames feedback_page)"
    by blast+
  from T sel nonblank answer have shown:
    "\<forall>k < length (frames feedback_page).
       (frame_id (frames feedback_page ! k) = frame_id (fetched_frame ''f1'' 1) \<longrightarrow>
          image_url (frames (handleFeedbackSubmit page_backend ''2025-01-01T00:00:00.000Z''
                               feedback_page) ! k)
            = Some ''/images/f1-v2.png'')
       \<and> (frame_id (frames feedback_page ! k) \<noteq> frame_id (fetched_frame ''f1'' 1) \<longrightarrow>
          frames (handleFeedbackSubmit page_backend ''2025-01-01T00:00:00.000Z'' feedback_page) ! k
            = frames feedback_page ! k)"
    by blast
  have two: "frames feedback_page = [fetched_frame ''f1'' 1, fetched_frame ''f2'' 2]"
    by (simp add: feedback_page_def storyboard0_def)
  from shown [rule_format, of 0] shown [rule_format, of 1] len
  have urls: "map image_url (frames (handleFeedbackSubmit page_backend ''2025-01-01T00:00:00.000Z''
                                 feedback_page))
        = [Some ''/images/f1-v2.png'', None]"
    unfolding two
    by (cases "frames (handleFeedbackSubmit page_backend ''2025-01-01T00:00:00.000Z''
                         feedback_page)")
       (auto simp: fetched_frame_def length_Suc_conv)
  from posted have req: "storyboard_requests
        (handleFeedbackSubmit page_backend ''2025-01-01T00:00:00.000Z'' feedback_page)
      = [SubmitFrameFeedback ''f1'' ''Alice should look more frightened'' None]"
    by (simp add: feedback_page_def storyboard0_def fetched_frame_def)
  from urls req nonblank show ?thesis
    unfolding res img imgs by simp
qed

text \<open>
  The statement for every non-empty feedback text fails on the page: the text \<open>" "\<close>
  is not empty, but the handler returns at its guard \<open>!feedbackText.trim()\<close>. No
  request is posted, no prompt is built and the image of the selected frame stays as
  it was.
\<close>

theorem C1_blank_feedback_counterexample:
  "feedbackText blank_feedback_page = '' ''
   \<and> feedbackText blank_feedback_page \<noteq> []
   \<and> selectedFrame blank_feedback_page = Some (fetched_frame ''f1'' 1)
   \<and> handleFeedbackSubmit page_backend ''2025-01-01T00:00:00.000Z'' blank_feedback_page
       = blank_feedback_page
   \<and> storyboard_requests
         (handleFeedbackSubmit page_backend ''2025-01-01T00:00:00.000Z'' blank_feedback_page) = []
   \<and> map image_url
         (frames (handleFeedbackSubmit page_backend ''2025-01-01T00:00:00.000Z'' blank_feedback_page))
       = [None, None]"
  by (simp add: blank_feedback_page_def storyboard0_def fetched_frame_def
                handleFeedbackSubmit_def js_trim_def js_isspace_def)

lemma variants_loop_variants:
  "variants_loop key tok model generate quality prof base idxs = Inr vs \<Longrightarrow>
     length vs = length idxs
     \<and> (\<forall>k < length idxs.
           \<exists>g. get_image_generator key tok model = Inr g
             \<and> prompt (vs ! k)
                 = base @ '', with emphasis on '' @ variant_aspects ! ((idxs ! k) mod 5)
             \<and> generate g (idxs ! k) (prompt (vs ! k)) = Inr (image (vs ! k))
             \<and> quality_score (vs ! k) = quality (image (vs ! k)) prof)"
proof (induction idxs arbitrary: vs)
  case Nil
  then show ?case by simp
next
  case (Cons i rest)
  from Cons.prems obtain g img ws where
    parts: "get_image_generator key tok model = Inr g"
      "generate g i (base @ '', with emphasis on ''
                       @ variant_aspects ! (i mod length variant_aspects)) = Inr img"
      "variants_loop key tok model generate quality prof base rest = Inr ws"
      "vs = \<lparr>image = img,
              prompt = base @ '', with emphasis on ''
                         @ variant_aspects ! (i mod length variant_aspects),
              quality_score = quality img prof\<rparr> # ws"
    by (auto simp: Let_def split: sum.splits)
  have five: "length variant_aspects = 5"
    by (simp add: variant_aspects_def)
  from Cons.IH [OF parts(3)] have ih: "length ws = length rest"
    "\<forall>k < length rest.
        \<exists>g. get_image_generator key tok model = Inr g
          \<and> prompt (ws ! k)
              = base @ '', with emphasis on '' @ variant_aspects ! ((rest ! k) mod 5)
          \<and> generate g (rest ! k) (prompt (ws ! k)) = Inr (image (ws ! k))
          \<and> quality_score (ws ! k) = quality (image (ws ! k)) prof"
    by blast+
  have "\<exists>g. get_image_generator key tok model = Inr g
          \<and> prompt (vs ! k)
              = base @ '', with emphasis on '' @ variant_aspects ! (((i # rest) ! k) mod 5)
          \<and> generate g ((i # rest) ! k) (prompt (vs ! k)) = Inr (image (vs ! k))
          \<and> quality_score (vs ! k) = quality (image (vs ! k)) prof"
    if "k < length (i # rest)" for k
  proof (cases k)
    case 0
    then show ?thesis
      using parts five by simp
  next
    case (Suc j)
    with that have "j < length rest"
      by simp
    with ih(2) Suc parts(4) show ?thesis
      by simp
  qed
  then show ?case
    using ih(1) parts(4) by simp
qed

lemma variants_loop_returns:
  assumes "get_image_generator key tok model = Inr g"
    and "\<forall>i p. \<exists>img. generate g i p = Inr img"
  shows "\<exists>vs. variants_loop key tok model generate quality prof base idxs = Inr vs"
proof (induction idxs)
  case Nil
  then show ?case by simp
next
  case (Cons i rest)
  then obtain ws where "variants_loop key tok model generate quality prof base rest = Inr ws"
    by blast
  moreover obtain img where
    "generate g i (base @ '', with emphasis on ''
                     @ variant_aspects ! (i mod length variant_aspects)) = Inr img"
    using assms(2) by blast
  ultimately show ?case
    using assms(1) by (simp add: Let_def)
qed

lemma variants_loop_unsupported:
  "get_image_generator key tok model = Inl e \<Longrightarrow> idxs \<noteq> [] \<Longrightarrow>
     variants_loop key tok model generate quality prof base idxs = Inl e"
  by (cases idxs) (simp_all add: Let_def)

lemma py_sort_reverse_mset: "mset (py_sort_reverse f xs) = mset xs"
  by (simp add: py_sort_reverse_def)

lemma py_sort_reverse_sorted:
  "sorted_wrt (\<lambda>a b. f a \<ge> f b) (py_sort_reverse f xs)"
proof -
  have "sorted (map f (sort_key f (rev xs)))"
    by simp
  then have "sorted_wrt (\<lambda>a b. f a \<le> f b) (sort_key f (rev xs))"
    by (simp add: sorted_map)
  then show ?thesis
    by (simp add: py_sort_reverse_def sorted_wrt_rev)
qed

lemma py_sort_reverse_stable:
  "filter (\<lambda>x. f x = q) (py_sort_reverse f xs) = filter (\<lambda>x. f x = q) xs"
proof -
  have "filter (\<lambda>x. f x = q) (sort_key f (rev xs)) = filter (\<lambda>x. f x = q) (rev xs)"
    by (rule sort_key_stable)
  then have "rev (filter (\<lambda>x. f x = q) (sort_key f (rev xs)))
             = rev (filter (\<lambda>x. f x = q) (rev xs))"
    by simp
  then show ?thesis
    by (simp add: py_sort_reverse_def rev_filter)
qed

text \<open>
  C7. For an actor with a stored profile, the \<open>i\<close>-th generated variant (0-indexed) has
  exactly the prompt "{actor_name}, {prompt_hint}, in a scene where {scene_desc}, with
  emphasis on {aspect}", the aspect being element \<open>i mod 5\<close> of the five-element
  emphasis list; its image is what the generator of the current model returns for that
  prompt, and its score is the quality computed for that image and the profile. The
  returned list holds the generated variants sorted in non-increasing order of quality
  score, variants of equal score in the order of generation. The function returns such
  a list whenever the current model is supported and the generator produces an image
  at every call; with an unsupported model and at least one variant requested it
  raises the factory's error.
\<close>

theorem C7_character_variants:
  assumes prof: "get_profile db actor_name = Some actor_profile"
  shows "(generate_character_variants key tok model generate quality db
            actor_name scene_desc num_variants = Inr vs \<longrightarrow>
          (\<exists>generated.
              length generated = nat num_variants
              \<and> (\<forall>i < nat num_variants.
                    \<exists>g. get_image_generator key tok model = Inr g
                      \<and> prompt (generated ! i)
                          = actor_name @ '', '' @ prompt_hint actor_profile
                              @ '', in a scene where '' @ scene_desc
                              @ '', with emphasis on '' @ variant_aspects ! (i mod 5)
                      \<and> generate g i (prompt (generated ! i)) = Inr (image (generated ! i))
                      \<and> quality_score (generated ! i)
                          = quality (image (generated ! i)) actor_profile)
              \<and> vs = py_sort_reverse quality_score generated
              \<and> mset vs = mset generated
              \<and> (\<forall>q. filter (\<lambda>v. quality_score v = q) vs
                       = filter (\<lambda>v. quality_score v = q) generated))
          \<and> sorted_wrt (\<lambda>a b. quality_score a \<ge> quality_score b) vs)
     \<and> length variant_aspects = 5
     \<and> (get_image_generator key tok model = Inr g
          \<and> (\<forall>i p. \<exists>img. generate g i p = Inr img) \<longrightarrow>
          (\<exists>ws. generate_character_variants key tok model generate quality db
                   actor_name scene_desc num_variants = Inr ws))
     \<and> (get_image_generator key tok model = Inl e \<and> 0 < num_variants \<longrightarrow>
          generate_character_variants key tok model generate quality db
            actor_name scene_desc num_variants = Inl e)"
proof -
  let ?base = "actor_name @ '', '' @ prompt_hint actor_profile
                 @ '', in a scene where '' @ scene_desc"
  let ?loop = "variants_loop key tok model generate quality actor_profile ?base
                 [0 ..< nat num_variants]"
  have unfold: "generate_character_variants key tok model generate quality db
                  actor_name scene_desc num_variants
                = (case ?loop of Inl e \<Rightarrow> Inl e
                   | Inr variants \<Rightarrow> Inr (py_sort_reverse quality_score variants))"
    using prof by (simp add: generate_character_variants_def Let_def)
  have first: "(\<exists>generated.
              length generated = nat num_variants
              \<and> (\<forall>i < nat num_variants.
                    \<exists>g. get_image_generator key tok model = Inr g
                      \<and> prompt (generated ! i)
                          = ?base @ '', with emphasis on '' @ variant_aspects ! (i mod 5)
                      \<and> generate g i (prompt (generated ! i)) = Inr (image (generated ! i))
                      \<and> quality_score (generated ! i)
                          = quality (image (generated ! i)) actor_profile)
              \<and> vs = py_sort_reverse quality_score generated
              \<and> mset vs = mset generated
              \<and> (\<forall>q. filter (\<lambda>v. quality_score v = q) vs
                       = filter (\<lambda>v. quality_score v = q) generated))
          \<and> sorted_wrt (\<lambda>a b. quality_score a \<ge> quality_score b) vs"
    if res: "generate_character_variants key tok model generate quality db
            actor_name scene_desc num_variants = Inr vs"
  proof -
    from res unfold obtain generated where
      g: "?loop = Inr generated" "vs = py_sort_reverse quality_score generated"
      by (auto split: sum.splits)
    from variants_loop_variants [OF g(1)]
    have "length generated = nat num_variants"
      "\<forall>i < nat num_variants.
          \<exists>g. get_image_generator key tok model = Inr g
            \<and> prompt (generated ! i)
                = ?base @ '', with emphasis on '' @ variant_aspects ! (i mod 5)
            \<and> generate g i (prompt (generated ! i)) = Inr (image (generated ! i))
            \<and> quality_score (generated ! i) = quality (image (generated ! i)) actor_profile"
      by simp_all
    then show ?thesis
      using g(2) py_sort_reverse_mset [of quality_score generated]
            py_sort_reverse_sorted [of quality_score generated]
            py_sort_reverse_stable [of quality_score _ generated]
      by blast
  qed
  have returns: "\<exists>ws. generate_character_variants key tok model generate quality db
                   actor_name scene_desc num_variants = Inr ws"
    if "get_image_generator key tok model = Inr g \<and> (\<forall>i p. \<exists>img. generate g i p = Inr img)"
  proof -
    from that obtain generated where "?loop = Inr generated"
      using variants_loop_returns [of key tok model g generate] by blast
    then show ?thesis
      using unfold by simp
  qed
  have raises: "generate_character_variants key tok model generate quality db
            actor_name scene_desc num_variants = Inl e"
    if "get_image_generator key tok model = Inl e \<and> 0 < num_variants"
  proof -
    from that have "[0 ..< nat num_variants] \<noteq> []"
      by simp
    with that have "?loop = Inl e"
      using variants_loop_unsupported by blast
    then show ?thesis
      using unfold by simp
  qed
  have five: "length variant_aspects = 5"
    by (simp add: variant_aspects_def)
  from first returns raises five show ?thesis
    by (simp only: append_assoc) blast
qed

theorem C7_character_variants_witness:
  "get_profile (actor_db guide_board) ''Alice''
     = Some \<lparr>profile_name = ''Alice'', profile_vec = (), prompt_hint = ''tall''\<rparr>
   \<and> (\<exists>ws generated.
         generate_character_variants ''k'' ''t'' ''dalle'' shoot score (actor_db guide_board)
           ''Alice'' ''she runs'' 2 = Inr ws
         \<and> length generated = 2
         \<and> prompt (generated ! 1)
             = ''Alice, tall, in a scene where she runs, with emphasis on body language and posture''
         \<and> shoot (DalleGenerator ''k'') 1 (prompt (generated ! 1)) = Inr (image (generated ! 1))
         \<and> quality_score (generated ! 1)
             = score (image (generated ! 1))
                 \<lparr>profile_name = ''Alice'', profile_vec = (), prompt_hint = ''tall''\<rparr>
         \<and> mset ws = mset generated
         \<and> sorted_wrt (\<lambda>a b. quality_score a \<ge> quality_score b) ws)
   \<and> generate_character_variants ''k'' ''t'' ''imagen'' shoot score (actor_db guide_board)
        ''Alice'' ''she runs'' 2 = Inl (ValueError ''Unsupported model'')"
proof -
  have prof: "get_profile (actor_db guide_board) ''Alice''
     = Some \<lparr>profile_name = ''Alice'', profile_vec = (), prompt_hint = ''tall''\<rparr>"
    by (simp add: get_profile_def guide_board_def)
  note T = C7_character_variants
      [where key = "''k''" and tok = "''t''" and model = "''dalle''" and generate = shoot
         and quality = score and scene_desc = "''she runs''" and num_variants = 2
         and g = "DalleGenerator ''k''", OF prof]
  note U = C7_character_variants
      [where key = "''k''" and tok = "''t''" and model = "''imagen''" and generate = shoot
         and quality = score and scene_desc = "''she runs''" and num_variants = 2
         and e = "ValueError ''Unsupported model''", OF prof]
  have sup: "get_image_generator ''k'' ''t'' ''dalle'' = Inr (DalleGenerator ''k'')
             \<and> (\<forall>i p. \<exists>img. shoot (DalleGenerator ''k'') i p = Inr img)"
    by (simp add: get_image_generator_def shoot_def)
  have unsup: "get_image_generator ''k'' ''t'' ''imagen'' = Inl (ValueError ''Unsupported model'')
               \<and> (0::int) < 2"
    by (simp add: get_image_generator_def)
  from U unsup have raised:
    "generate_character_variants ''k'' ''t'' ''imagen'' shoot score (actor_db guide_board)
        ''Alice'' ''she runs'' 2 = Inl (ValueError ''Unsupported model'')"
    by blast
  from T sup obtain ws where
    ws: "generate_character_variants ''k'' ''t'' ''dalle'' shoot score (actor_db guide_board)
           ''Alice'' ''she runs'' 2 = Inr ws"
    by blast
  from T [where vs = ws] ws obtain generated where
    g: "length generated = nat 2"
       "\<forall>i < nat 2.
           \<exists>g. get_image_generator ''k'' ''t'' ''dalle'' = Inr g
             \<and> prompt (generated ! i)
                 = ''Alice'' @ '', '' @ prompt_hint \<lparr>profile_name = ''Alice'', profile_vec = (),
                                                     prompt_hint = ''tall''\<rparr>
                     @ '', in a scene where '' @ ''she runs''
                     @ '', with emphasis on '' @ variant_aspects ! (i mod 5)
             \<and> shoot g i (prompt (generated ! i)) = Inr (image (generated ! i))
             \<and> quality_score (generated ! i)
                 = score (image (generated ! i))
                     \<lparr>profile_name = ''Alice'', profile_vec = (), prompt_hint = ''tall''\<rparr>"
       "mset ws = mset generated"
       "sorted_wrt (\<lambda>a b. quality_score a \<ge> quality_score b) ws"
    by blast
  have one: "(1::nat) < nat 2"
    by simp
  from g(2) one obtain g1 where
    g1: "get_image_generator ''k'' ''t'' ''dalle'' = Inr g1"
      "prompt (generated ! 1)
           = ''Alice'' @ '', '' @ prompt_hint \<lparr>profile_name = ''Alice'', profile_vec = (),
                                               prompt_hint = ''tall''\<rparr>
               @ '', in a scene where '' @ ''she runs''
               @ '', with emphasis on '' @ variant_aspects ! (1 mod 5)"
      "shoot g1 1 (prompt (generated ! 1)) = Inr (image (generated ! 1))"
      "quality_score (generated ! 1)
         = score (image (generated ! 1))
             \<lparr>profile_name = ''Alice'', profile_vec = (), prompt_hint = ''tall''\<rparr>"
    by blast
  from g1(1) sup have "g1 = DalleGenerator ''k''"
    by simp
  with g1(3) have shot: "shoot (DalleGenerator ''k'') 1 (prompt (generated ! 1))
                         = Inr (image (generated ! 1))"
    by simp
  from g1(2) have p1: "prompt (generated ! 1)
             = ''Alice, tall, in a scene where she runs, with emphasis on body language and posture''"
    by (simp add: variant_aspects_def)
  from g(1) have "length generated = 2"
    by simp
  with prof ws p1 shot g1(4) g(3) g(4) raised show ?thesis
    by blast
qed

lemma find_first_char:
  "find_first [c] s
     = (if c \<in> set s
        then Some (takeWhile (\<lambda>x. x \<noteq> c) s, tl (dropWhile (\<lambda>x. x \<noteq> c) s))
        else None)"
  by (induction s) auto

lemma partition_dot: "snd (snd (py_partition ''.'' l)) = text_after_first_dot l"
proof -
  have tl1: "drop 1 xs = tl xs" for xs :: string
    by (cases xs) auto
  show ?thesis
  proof (cases "CHR ''.'' \<in> set l")
    case True
    then show ?thesis
      by (simp only: py_partition_def find_first_char text_after_first_dot_def tl1) simp
  next
    case False
    then have dw: "dropWhile (\<lambda>c. c \<noteq> CHR ''.'') l = []"
      by (induction l) auto
    show ?thesis
      unfolding py_partition_def find_first_char text_after_first_dot_def dw
      using False by simp
  qed
qed

lemma strip_empty_iff: "py_strip l = [] \<longleftrightarrow> blank_line l"
proof -
  have "py_strip l = [] \<longleftrightarrow> (\<forall>c \<in> set (rev (dropWhile py_isspace l)). py_isspace c)"
    by (simp add: py_strip_def)
  also have "\<dots> \<longleftrightarrow> (\<forall>c \<in> set l. py_isspace c)"
  proof
    assume a: "\<forall>c \<in> set (rev (dropWhile py_isspace l)). py_isspace c"
    have "dropWhile py_isspace l = []"
    proof (rule ccontr)
      assume "dropWhile py_isspace l \<noteq> []"
      then have "hd (dropWhile py_isspace l) \<in> set (dropWhile py_isspace l)"
        "\<not> py_isspace (hd (dropWhile py_isspace l))"
        by (simp_all add: hd_dropWhile)
      with a show False by simp
    qed
    then show "\<forall>c \<in> set l. py_isspace c"
      by simp
  next
    assume "\<forall>c \<in> set l. py_isspace c"
    then show "\<forall>c \<in> set (rev (dropWhile py_isspace l)). py_isspace c"
      using set_dropWhileD by fastforce
  qed
  finally show ?thesis
    by (simp add: blank_line_def)
qed

lemma first_digit: "(case l of [] \<Rightarrow> False | c # _ \<Rightarrow> digit c) \<longleftrightarrow> l \<noteq> [] \<and> digit (hd l)"
  by (cases l) auto

text \<open>
  C2 (as amended). The system asks the LLM for \<open>frame_count\<close> (default 6) key visual
  scenes of the script and parses the response, first stripped of leading and trailing
  white space, line by line: a line contributes a frame if and only if it is non-blank
  and its first character is a digit in the sense of \<open>str.isdigit\<close> (a decimal digit
  or a superscript digit); the frame's description is the trimmed text after the first
  \<open>'.'\<close> of the line; the result is the list of these descriptions in response order.
\<close>

theorem C2_extract_key_frames:
  "(completion (key_frames_prompt script_text frame_count) = Some response \<longrightarrow>
      extract_key_frames completion script_text frame_count
        = Inr (described_frames py_isdigit (py_strip response)))
   \<and> (completion (key_frames_prompt script_text 6) = Some response \<longrightarrow>
      extract_key_frames_default completion script_text
        = Inr (described_frames py_isdigit (py_strip response)))
   \<and> key_frames_prompt script_text frame_count
       = ''You are a film storyboard assistant. Read the script below and divide it into ''
         @ show_int frame_count
         @ '' key visual scenes. Provide a brief description for each of the frames, focusing on distinct important moments, with any key characters and actions.\<newline>\<newline>Script:\<newline>''
         @ script_text @ ''\<newline>\<newline>Frames:\<newline>1.''
   \<and> (decimal_digit c \<longrightarrow> py_isdigit c)"
proof -
  have parse: "extract_key_frames completion script_text n
        = Inr (described_frames py_isdigit (py_strip response))"
    if "completion (key_frames_prompt script_text n) = Some response" for n
    using that
    by (simp add: extract_key_frames_def described_frames_def partition_dot
                  strip_empty_iff first_digit)
  have dd: "decimal_digit c \<longrightarrow> py_isdigit c"
    by (auto simp: decimal_digit_def py_isdigit_def)
  show ?thesis
    using parse [of frame_count] parse [of 6] dd
    by (simp add: extract_key_frames_default_def key_frames_prompt_def)
qed

theorem C2_extract_key_frames_witness:
  "extract_key_frames (llm_reply '' 1. Dawn breaks.\<newline>2. She runs.\<newline>fin'') ''INT. HOUSE'' 6
     = Inr [''Dawn breaks.'', ''She runs.'']"
proof -
  have reply: "llm_reply '' 1. Dawn breaks.\<newline>2. She runs.\<newline>fin''
                 (key_frames_prompt ''INT. HOUSE'' 6)
               = Some '' 1. Dawn breaks.\<newline>2. She runs.\<newline>fin''"
    by (simp only: llm_reply_def)
  have frames: "described_frames py_isdigit
                  (py_strip '' 1. Dawn breaks.\<newline>2. She runs.\<newline>fin'')
                = [''Dawn breaks.'', ''She runs.'']"
    by (simp add: described_frames_def py_strip_def py_splitlines_def py_isspace_def
                  py_isdigit_def line_boundary_def blank_line_def text_after_first_dot_def)
  from C2_extract_key_frames
         [of "llm_reply '' 1. Dawn breaks.\<newline>2. She runs.\<newline>fin''" "''INT. HOUSE''" 6
             "'' 1. Dawn breaks.\<newline>2. She runs.\<newline>fin''"]
       reply
  have "extract_key_frames (llm_reply '' 1. Dawn breaks.\<newline>2. She runs.\<newline>fin'')
          ''INT. HOUSE'' 6
        = Inr (described_frames py_isdigit
                 (py_strip '' 1. Dawn breaks.\<newline>2. She runs.\<newline>fin''))"
    by blast
  then show ?thesis
    by (simp only: frames)
qed

text \<open>
  The claim as first stated reads the response itself line by line and asks for a
  decimal digit. With the response " 1. a" the only line starts with a space, so the
  stated rule yields no frame, while the code strips the response first and returns
  one frame. With a response that starts with the superscript two, \<open>isdigit\<close> accepts
  the first character although it is no decimal digit.
\<close>

theorem C2_stated_rule_counterexample:
  "extract_key_frames (llm_reply '' 1. a'') ''INT. HOUSE'' 6 = Inr [''a'']
   \<and> described_frames decimal_digit '' 1. a'' = []
   \<and> extract_key_frames (llm_reply (CHR 0xB2 # ''. b'')) ''INT. HOUSE'' 6 = Inr [''b'']
   \<and> described_frames decimal_digit (CHR 0xB2 # ''. b'') = []"
  by (simp add: extract_key_frames_def llm_reply_def described_frames_def py_strip_def
                py_splitlines_def py_isspace_def py_isdigit_def line_boundary_def
                blank_line_def text_after_first_dot_def decimal_digit_def
                py_partition_def)

end
